theory Spec2Isabelle
  imports Complex_Main
begin

section \<open>Python values and library functions used by the scripts\<close>

text \<open>
  The scripts compute with Python floats. They are modelled as the real numbers they
  approximate: overflow to infinity and NaN are outside this development, and rounding
  is followed only where a statement turns on it (the epsilon of the perspective divide,
  the emission accumulator).
  Every division of the source whose divisor is not a literal is written with
  \<open>py_truediv\<close>, so that the \<^verbatim>\<open>ZeroDivisionError\<close> Python raises on a zero divisor
  is a value of the model.
\<close>

datatype py_error = ZeroDivisionError | IndexError | TypeError

definition py_truediv :: "real \<Rightarrow> real \<Rightarrow> py_error + real" where
  "py_truediv a b = (if b = 0 then Inl ZeroDivisionError else Inr (a / b))"

text \<open>\<^verbatim>\<open>int(x)\<close> on a float truncates toward zero.\<close>

definition py_int :: "real \<Rightarrow> int" where
  "py_int v = (if 0 \<le> v then \<lfloor>v\<rfloor> else \<lceil>v\<rceil>)"

text \<open>\<^verbatim>\<open>xs[i]\<close> for a non-negative index; out of range raises \<^verbatim>\<open>IndexError\<close>.\<close>

definition py_index :: "'a list \<Rightarrow> nat \<Rightarrow> py_error + 'a" where
  "py_index xs i = (if i < length xs then Inr (xs ! i) else Inl IndexError)"

type_synonym point3 = "real \<times> real \<times> real"

subsection \<open>Doubles\<close>

text \<open>
  Where a claim turns on rounding, the double a computation yields is needed. \<open>fl x\<close> is
  the double nearest to \<open>x\<close>, ties to the even significand, for \<open>x\<close> of normal magnitude
  (53 significant bits; overflow and subnormal numbers are not modelled).
\<close>

definition round_ties_even :: "real \<Rightarrow> int" where
  "round_ties_even x =
     (let f = \<lfloor>x\<rfloor> in
      if x - of_int f < 1 / 2 then f
      else if x - of_int f > 1 / 2 then f + 1
      else if even f then f else f + 1)"

definition fl :: "real \<Rightarrow> real" where
  "fl x =
     (if x = 0 then 0
      else let q = 2 powr (of_int \<lfloor>log 2 \<bar>x\<bar>\<rfloor> - 52)
           in of_int (round_ties_even (x / q)) * q)"

text \<open>The double that the literal \<^verbatim>\<open>0.001\<close> denotes, \<^verbatim>\<open>0x1.0624dd2f1a9fcp-10\<close>; it is
  \<open>fl (1 / 1000)\<close>.\<close>

definition DOUBLE_0_001 :: real where
  "DOUBLE_0_001 = 1152921504606847 / 2 ^ 60"

type_synonym color = "int \<times> int \<times> int"

section \<open>Constants of square6.py and square5.py\<close>

definition CAMERA_DEFAULT_Z :: real where "CAMERA_DEFAULT_Z = 300"
definition CAMERA_NEAR_CLIP :: real where "CAMERA_NEAR_CLIP = 1.0"
definition CAMERA_FAR_CLIP :: real where "CAMERA_FAR_CLIP = 6000.0"
definition WORLD_SIZE :: real where "WORLD_SIZE = 3000"
definition MAX_STAR_SIZE :: real where "MAX_STAR_SIZE = 5"
definition STAR_PROJECTION_DISTANCE :: real where "STAR_PROJECTION_DISTANCE = 400"

text \<open>square5.py differs in two of them.\<close>

definition CAMERA_FAR_CLIP_sq5 :: real where "CAMERA_FAR_CLIP_sq5 = 5000.0"
definition WORLD_SIZE_sq5 :: real where "WORLD_SIZE_sq5 = 2000"

section \<open>Utility functions\<close>

definition lerp :: "real \<Rightarrow> real \<Rightarrow> real \<Rightarrow> real" where
  "lerp a b t = a + (b - a) * t"

text \<open>\<^verbatim>\<open>project_point\<close> of square6.py (lines 66-85).\<close>

definition project_point ::
  "point3 \<Rightarrow> real \<Rightarrow> real \<Rightarrow> real \<Rightarrow> real \<Rightarrow> real \<Rightarrow> real
     \<Rightarrow> py_error + (real \<times> real \<times> real \<times> real) option" where
  "project_point point camera_x camera_y camera_z screen_center_x screen_center_y
       projection_distance =
     (case point of (p0, p1, p2) \<Rightarrow>
        let x = p0 - camera_x; y = p1 - camera_y; z = p2 - camera_z in
        if z < CAMERA_NEAR_CLIP \<or> z > CAMERA_FAR_CLIP then Inr None
        else
          (case py_truediv projection_distance z of
             Inl e \<Rightarrow> Inl e
           | Inr factor \<Rightarrow>
               let projected_x = x * factor + screen_center_x;
                   projected_y = y * factor + screen_center_y
               in (case py_truediv (z - CAMERA_NEAR_CLIP) (CAMERA_FAR_CLIP - CAMERA_NEAR_CLIP) of
                     Inl e \<Rightarrow> Inl e
                   | Inr normalized_z \<Rightarrow>
                       let size_factor = max 0.1 (1.0 - normalized_z)
                       in Inr (Some (projected_x, projected_y, size_factor, z)))))"

text \<open>\<^verbatim>\<open>project_point\<close> of square5.py (lines 61-80): the far plane is at 5000 and the
  result is the triple \<^verbatim>\<open>(projected_x, projected_y, size_factor)\<close>.\<close>

definition project_point_sq5 ::
  "point3 \<Rightarrow> real \<Rightarrow> real \<Rightarrow> real \<Rightarrow> real \<Rightarrow> real \<Rightarrow> real
     \<Rightarrow> py_error + (real \<times> real \<times> real) option" where
  "project_point_sq5 point camera_x camera_y camera_z screen_center_x screen_center_y
       projection_distance =
     (case point of (p0, p1, p2) \<Rightarrow>
        let x = p0 - camera_x; y = p1 - camera_y; z = p2 - camera_z in
        if z < CAMERA_NEAR_CLIP \<or> z > CAMERA_FAR_CLIP_sq5 then Inr None
        else
          (case py_truediv projection_distance z of
             Inl e \<Rightarrow> Inl e
           | Inr factor \<Rightarrow>
               let projected_x = x * factor + screen_center_x;
                   projected_y = y * factor + screen_center_y
               in (case py_truediv (z - CAMERA_NEAR_CLIP) (CAMERA_FAR_CLIP_sq5 - CAMERA_NEAR_CLIP) of
                     Inl e \<Rightarrow> Inl e
                   | Inr normalized_z \<Rightarrow>
                       let size_factor = max 0.1 (1.0 - normalized_z)
                       in Inr (Some (projected_x, projected_y, size_factor)))))"

text \<open>\<^verbatim>\<open>rotate_point_3d\<close> of square6.py (lines 52-64).\<close>

definition rotate_point_3d :: "point3 \<Rightarrow> real \<Rightarrow> real \<Rightarrow> real \<Rightarrow> point3" where
  "rotate_point_3d point angle_x angle_y angle_z =
     (case point of (x, y, z) \<Rightarrow>
        let cos_x = cos angle_x; sin_x = sin angle_x;
            (y, z) = (y * cos_x - z * sin_x, y * sin_x + z * cos_x);
            cos_y = cos angle_y; sin_y = sin angle_y;
            (x, z) = (x * cos_y + z * sin_y, - x * sin_y + z * cos_y);
            cos_z = cos angle_z; sin_z = sin angle_z;
            (x, y) = (x * cos_z - y * sin_z, x * sin_z + y * cos_z)
        in (x, y, z))"

text \<open>\<^verbatim>\<open>rotate_point_3d\<close> of square5.py (lines 47-59).\<close>

definition rotate_point_3d_sq5 :: "point3 \<Rightarrow> real \<Rightarrow> real \<Rightarrow> real \<Rightarrow> point3" where
  "rotate_point_3d_sq5 point angle_x angle_y angle_z =
     (case point of (x, y, z) \<Rightarrow>
        let cos_x = cos angle_x; sin_x = sin angle_x;
            (y, z) = (y * cos_x - z * sin_x, y * sin_x + z * cos_x);
            cos_y = cos angle_y; sin_y = sin angle_y;
            (x, z) = (x * cos_y + z * sin_y, - x * sin_y + z * cos_y);
            cos_z = cos angle_z; sin_z = sin angle_z;
            (x, y) = (x * cos_z - y * sin_z, x * sin_z + y * cos_z)
        in (x, y, z))"

text \<open>\<^verbatim>\<open>rotate_point_3d\<close> of square4.py (lines 97-108): the Y step has the other sign.\<close>

definition rotate_point_3d_sq4 :: "point3 \<Rightarrow> real \<Rightarrow> real \<Rightarrow> real \<Rightarrow> point3" where
  "rotate_point_3d_sq4 point angle_x angle_y angle_z =
     (case point of (x, y, z) \<Rightarrow>
        let cos_x = cos angle_x; sin_x = sin angle_x;
            (y, z) = (y * cos_x - z * sin_x, y * sin_x + z * cos_x);
            cos_y = cos angle_y; sin_y = sin angle_y;
            (x, z) = (x * cos_y - z * sin_y, x * sin_y + z * cos_y);
            cos_z = cos angle_z; sin_z = sin angle_z;
            (x, y) = (x * cos_z - y * sin_z, x * sin_z + y * cos_z)
        in (x, y, z))"

text \<open>\<^verbatim>\<open>project_point\<close> of square4.py (lines 110-113): no clip test, an epsilon in the
  divisor. The depth enters the divisor as the double the float holds, \<open>fl z\<close> (which is
  \<open>z\<close> when \<open>z\<close> is a double), and the epsilon as the double the literal denotes, so
  that the divisor near its zero is the divisor the code computes.\<close>

definition project_point_sq4 :: "point3 \<Rightarrow> real \<Rightarrow> real \<Rightarrow> real \<Rightarrow> py_error + (real \<times> real)" where
  "project_point_sq4 point projection_center_x projection_center_y camera_z =
     (case point of (x, y, z) \<Rightarrow>
        (case py_truediv camera_z (camera_z - fl z + DOUBLE_0_001) of
           Inl e \<Rightarrow> Inl e
         | Inr factor \<Rightarrow> Inr (x * factor + projection_center_x, y * factor + projection_center_y)))"

section \<open>The random source\<close>

text \<open>
  \<^verbatim>\<open>random.random()\<close> returns the next number of a sequence in \<open>[0, 1)\<close>. The
  generator is its sequence and the position reached; \<^verbatim>\<open>random.uniform(a, b)\<close> is
  \<^verbatim>\<open>a + (b - a) * random()\<close>, as the standard library defines it.
\<close>

record rng =
  draws :: "nat \<Rightarrow> real"
  pos :: nat

definition rng_ok :: "rng \<Rightarrow> bool" where
  "rng_ok g = (\<forall>n. 0 \<le> draws g n \<and> draws g n < 1)"

definition random :: "rng \<Rightarrow> real \<times> rng" where
  "random g = (draws g (pos g), g\<lparr>pos := Suc (pos g)\<rparr>)"

definition uniform :: "real \<Rightarrow> real \<Rightarrow> rng \<Rightarrow> real \<times> rng" where
  "uniform a b g = (case random g of (u, g') \<Rightarrow> (a + (b - a) * u, g'))"

section \<open>Stars\<close>

text \<open>\<^verbatim>\<open>class Star\<close> of square6.py (lines 89-130).\<close>

record star =
  star_initial_size :: real
  star_base_color :: color
  star_x :: real
  star_y :: real
  star_z :: real
  star_size :: real
  star_trail_length :: real
  star_trail_alpha :: real

definition Star_reset :: "star \<Rightarrow> rng \<Rightarrow> star \<times> rng" where
  "Star_reset s g =
     (case uniform (- WORLD_SIZE) WORLD_SIZE g of (x, g1) \<Rightarrow>
      case uniform (- WORLD_SIZE) WORLD_SIZE g1 of (y, g2) \<Rightarrow>
      case uniform (CAMERA_DEFAULT_Z + 100) (CAMERA_FAR_CLIP - 100) g2 of (z, g3) \<Rightarrow>
        (s\<lparr>star_x := x, star_y := y, star_z := z, star_size := star_initial_size s,
            star_trail_length := 0, star_trail_alpha := 255\<rparr>, g3))"

definition Star_update :: "star \<Rightarrow> real \<Rightarrow> real \<Rightarrow> rng \<Rightarrow> star \<times> rng" where
  "Star_update s delta_z warp_factor g =
     (let s1 = s\<lparr>star_z := star_z s + delta_z\<rparr>;
          s2 = s1\<lparr>star_z := star_z s1 - delta_z * warp_factor * 20\<rparr>;
          s3 = (if warp_factor > 0.1
                then s2\<lparr>star_trail_length :=
                          lerp (star_trail_length s2) (MAX_STAR_SIZE * 30 * warp_factor) 0.1,
                        star_trail_alpha := lerp (star_trail_alpha s2) 50 0.1,
                        star_size := lerp (star_size s2) (MAX_STAR_SIZE * 3) 0.1\<rparr>
                else s2\<lparr>star_trail_length := lerp (star_trail_length s2) 0 0.1,
                        star_trail_alpha := lerp (star_trail_alpha s2) 255 0.1,
                        star_size := lerp (star_size s2) (star_initial_size s2) 0.1\<rparr>)
      in if star_z s3 < CAMERA_NEAR_CLIP \<or> star_z s3 > CAMERA_FAR_CLIP
         then (case Star_reset s3 g of (s4, g1) \<Rightarrow>
                 if star_z s4 > CAMERA_FAR_CLIP
                 then (case uniform 0 (WORLD_SIZE / 2) g1 of (r, g2) \<Rightarrow>
                         (s4\<lparr>star_z := CAMERA_NEAR_CLIP + WORLD_SIZE + r\<rparr>, g2))
                 else (case uniform 0 (WORLD_SIZE / 2) g1 of (r, g2) \<Rightarrow>
                         (s4\<lparr>star_z := CAMERA_FAR_CLIP - r\<rparr>, g2)))
         else (s3, g))"

text \<open>\<^verbatim>\<open>Star.reset\<close> and \<^verbatim>\<open>Star.update\<close> of square5.py (lines 91-125): \<^verbatim>\<open>update\<close> does
  not call \<^verbatim>\<open>reset\<close> there, and the depths it reassigns are other ones.\<close>

definition Star_reset_sq5 :: "star \<Rightarrow> rng \<Rightarrow> star \<times> rng" where
  "Star_reset_sq5 s g =
     (case uniform (- WORLD_SIZE_sq5) WORLD_SIZE_sq5 g of (x, g1) \<Rightarrow>
      case uniform (- WORLD_SIZE_sq5) WORLD_SIZE_sq5 g1 of (y, g2) \<Rightarrow>
      case uniform (CAMERA_DEFAULT_Z + 10) (CAMERA_FAR_CLIP_sq5 - 100) g2 of (z, g3) \<Rightarrow>
        (s\<lparr>star_x := x, star_y := y, star_z := z, star_size := star_initial_size s,
            star_trail_length := 0, star_trail_alpha := 255\<rparr>, g3))"

definition Star_update_sq5 :: "star \<Rightarrow> real \<Rightarrow> real \<Rightarrow> rng \<Rightarrow> star \<times> rng" where
  "Star_update_sq5 s delta_z warp_factor g =
     (let s1 = s\<lparr>star_z := star_z s + delta_z\<rparr>;
          s2 = s1\<lparr>star_z := star_z s1 - delta_z * warp_factor * 10\<rparr>;
          s3 = (if warp_factor > 0.1
                then s2\<lparr>star_trail_length :=
                          lerp (star_trail_length s2) (MAX_STAR_SIZE * 20 * warp_factor) 0.1,
                        star_trail_alpha := lerp (star_trail_alpha s2) 50 0.1,
                        star_size := lerp (star_size s2) (MAX_STAR_SIZE * 2) 0.1\<rparr>
                else s2\<lparr>star_trail_length := lerp (star_trail_length s2) 0 0.1,
                        star_trail_alpha := lerp (star_trail_alpha s2) 255 0.1,
                        star_size := lerp (star_size s2) (star_initial_size s2) 0.1\<rparr>)
      in if star_z s3 < CAMERA_NEAR_CLIP \<or> star_z s3 > CAMERA_FAR_CLIP_sq5
         then (if star_z s3 > CAMERA_FAR_CLIP_sq5
               then (case uniform 0 WORLD_SIZE_sq5 g of (r, g1) \<Rightarrow>
                       (s3\<lparr>star_z := CAMERA_NEAR_CLIP + WORLD_SIZE_sq5 + r\<rparr>, g1))
               else (case uniform 0 WORLD_SIZE_sq5 g of (r, g1) \<Rightarrow>
                       (s3\<lparr>star_z := CAMERA_FAR_CLIP_sq5 - 100 - r\<rparr>, g1)))
         else (s3, g))"

text \<open>The main loop calls \<^verbatim>\<open>star.update(camera_delta_z, warp_factor)\<close> once per tick; a
  run lists the star at the end of each call.\<close>

fun Star_run :: "star \<Rightarrow> rng \<Rightarrow> (real \<times> real) list \<Rightarrow> star list" where
  "Star_run s g [] = []"
| "Star_run s g ((delta_z, warp_factor) # calls) =
     (case Star_update s delta_z warp_factor g of (s', g') \<Rightarrow> s' # Star_run s' g' calls)"

fun Star_run_sq5 :: "star \<Rightarrow> rng \<Rightarrow> (real \<times> real) list \<Rightarrow> star list" where
  "Star_run_sq5 s g [] = []"
| "Star_run_sq5 s g ((delta_z, warp_factor) # calls) =
     (case Star_update_sq5 s delta_z warp_factor g of (s', g') \<Rightarrow> s' # Star_run_sq5 s' g' calls)"

text \<open>The first statement of \<^verbatim>\<open>Star.draw\<close> of square6.py (line 134).\<close>

definition WIDTH :: int where "WIDTH = 1200"
definition HEIGHT :: int where "HEIGHT = 800"

definition Star_draw_projected_data ::
  "star \<Rightarrow> real \<times> real \<times> real \<Rightarrow> py_error + (real \<times> real \<times> real \<times> real) option" where
  "Star_draw_projected_data s camera_pos =
     (case camera_pos of (c0, c1, c2) \<Rightarrow>
        project_point (star_x s, star_y s, star_z s) c0 c1 c2
          (real_of_int (WIDTH div 2)) (real_of_int (HEIGHT div 2)) STAR_PROJECTION_DISTANCE)"

text \<open>\<^verbatim>\<open>class Star\<close> of square.py (lines 10-29): no clip test before the divide.\<close>

record star_sq1 =
  sq1_x :: real
  sq1_y :: real
  sq1_z :: real
  sq1_size :: real

definition Star_init_sq1 :: "rng \<Rightarrow> star_sq1 \<times> rng" where
  "Star_init_sq1 g =
     (case uniform (- 1000) 1000 g of (x, g1) \<Rightarrow>
      case uniform (- 1000) 1000 g1 of (y, g2) \<Rightarrow>
      case uniform 1 1000 g2 of (z, g3) \<Rightarrow>
      case uniform 1 3 g3 of (sz, g4) \<Rightarrow>
        (\<lparr>sq1_x = x, sq1_y = y, sq1_z = z, sq1_size = sz\<rparr>, g4))"

definition Star_update_sq1 :: "star_sq1 \<Rightarrow> rng \<Rightarrow> star_sq1 \<times> rng" where
  "Star_update_sq1 s g =
     (let s1 = s\<lparr>sq1_z := sq1_z s - 5\<rparr>
      in if sq1_z s1 < 1
         then (case uniform (- 1000) 1000 g of (x, g1) \<Rightarrow>
               case uniform (- 1000) 1000 g1 of (y, g2) \<Rightarrow>
                 (s1\<lparr>sq1_z := 1000, sq1_x := x, sq1_y := y\<rparr>, g2))
         else (s1, g))"

text \<open>\<^verbatim>\<open>Star.project\<close>: the rectangle handed to \<^verbatim>\<open>pygame.draw.rect\<close>; the window of
  square.py is 800 by 600. The depth enters the divisor as the double the float holds,
  \<open>fl z\<close> (which is \<open>z\<close> when \<open>z\<close> is a double), and the epsilon as the double the
  literal denotes: at a depth near 200 the subtraction and the addition of line 25 are
  exact in doubles, so the divisor here is the divisor of the code.\<close>

definition Star_project_sq1 :: "star_sq1 \<Rightarrow> py_error + (real \<times> real \<times> real \<times> real)" where
  "Star_project_sq1 s =
     (case py_truediv 200 (200 - fl (sq1_z s) + DOUBLE_0_001) of
        Inl e \<Rightarrow> Inl e
      | Inr factor \<Rightarrow>
          let x = sq1_x s * factor + real_of_int (800 div 2);
              y = sq1_y s * factor + real_of_int (600 div 2);
              size = sq1_size s * factor
          in Inr (x, y, size, size))"

section \<open>The warp factor\<close>

text \<open>The smoothing step of the main loop of square6.py (lines 787-792), and \<open>n\<close> ticks
  of it with the same \<open>dt\<close> and the warp key state unchanged.\<close>

definition warp_step :: "bool \<Rightarrow> real \<Rightarrow> real \<Rightarrow> real" where
  "warp_step keys_warp warp_factor dt =
     (if keys_warp then lerp warp_factor 1.0 (5.0 * dt) else lerp warp_factor 0.0 (5.0 * dt))"

fun warp_ticks :: "nat \<Rightarrow> bool \<Rightarrow> real \<Rightarrow> real \<Rightarrow> real" where
  "warp_ticks 0 keys_warp warp_factor dt = warp_factor"
| "warp_ticks (Suc n) keys_warp warp_factor dt =
     warp_ticks n keys_warp (warp_step keys_warp warp_factor dt) dt"


section \<open>Particles\<close>

text \<open>\<^verbatim>\<open>class Particle\<close> and \<^verbatim>\<open>class ParticleSystem\<close> of square6.py (lines 615-692);
  square5.py (lines 530-617) has the same code.\<close>

record particle =
  p_x :: real
  p_y :: real
  p_z :: real
  p_color :: color
  p_size :: real
  p_vx :: real
  p_vy :: real
  p_vz :: real
  p_lifetime :: real
  p_current_lifetime :: real

definition Particle_init ::
  "real \<Rightarrow> real \<Rightarrow> real \<Rightarrow> color \<Rightarrow> real \<Rightarrow> real \<times> real \<times> real \<Rightarrow> real \<Rightarrow> particle" where
  "Particle_init x y z color sz velocity lifetime =
     (case velocity of (vx, vy, vz) \<Rightarrow>
        \<lparr>p_x = x, p_y = y, p_z = z, p_color = color, p_size = sz,
         p_vx = vx, p_vy = vy, p_vz = vz, p_lifetime = lifetime, p_current_lifetime = lifetime\<rparr>)"

definition Particle_update :: "particle \<Rightarrow> real \<Rightarrow> real \<Rightarrow> particle" where
  "Particle_update p dt camera_delta_z =
     p\<lparr>p_x := p_x p + p_vx p * dt,
       p_y := p_y p + p_vy p * dt,
       p_z := p_z p + (p_vz p * dt + camera_delta_z),
       p_current_lifetime := p_current_lifetime p - dt\<rparr>"

text \<open>\<^verbatim>\<open>max_particles\<close> is a count (500 at both construction sites), a natural number
  here.\<close>

record particle_system =
  source_pos_relative :: point3
  max_particles :: nat
  particles :: "particle list"
  ps_color :: color
  size_range :: "real \<times> real"
  velocity_range :: "real \<times> real \<times> real \<times> real \<times> real \<times> real"
  lifetime_range :: "real \<times> real"
  emission_rate :: real
  time_since_last_emission :: real

definition ParticleSystem_init ::
  "point3 \<Rightarrow> nat \<Rightarrow> color \<Rightarrow> real \<times> real \<Rightarrow> real \<times> real \<times> real \<times> real \<times> real \<times> real
     \<Rightarrow> real \<times> real \<Rightarrow> real \<Rightarrow> particle_system" where
  "ParticleSystem_init src maxp color sizes velocities lifetimes rate =
     \<lparr>source_pos_relative = src, max_particles = maxp, particles = [], ps_color = color,
      size_range = sizes, velocity_range = velocities, lifetime_range = lifetimes,
      emission_rate = rate, time_since_last_emission = 0\<rparr>"

text \<open>One pass of the body of \<^verbatim>\<open>for _ in range(particles_to_emit)\<close>.\<close>

definition emit_one :: "particle_system \<Rightarrow> point3 \<Rightarrow> point3 \<Rightarrow> rng \<Rightarrow> particle_system \<times> rng" where
  "emit_one ps parent_pos parent_rotation g =
     (if length (particles ps) < max_particles ps
      then
        (case parent_rotation of (r0, r1, r2) \<Rightarrow>
         case parent_pos of (q0, q1, q2) \<Rightarrow>
         case rotate_point_3d (source_pos_relative ps) r0 r1 r2 of (s0, s1, s2) \<Rightarrow>
         case velocity_range ps of (v0, v1, v2, v3, v4, v5) \<Rightarrow>
         let px = q0 + s0; py = q1 + s1; pz = q2 + s2 in
         case uniform v0 v1 g of (vx, g1) \<Rightarrow>
         case uniform v2 v3 g1 of (vy, g2) \<Rightarrow>
         case uniform v4 v5 g2 of (vz, g3) \<Rightarrow>
         case uniform (fst (size_range ps)) (snd (size_range ps)) g3 of (sz, g4) \<Rightarrow>
         case uniform (fst (lifetime_range ps)) (snd (lifetime_range ps)) g4 of (lifetime, g5) \<Rightarrow>
           (ps\<lparr>particles := particles ps @
                  [Particle_init px py pz (ps_color ps) sz (vx, vy, vz) lifetime]\<rparr>, g5))
      else (ps, g))"

fun emit_loop :: "nat \<Rightarrow> particle_system \<Rightarrow> point3 \<Rightarrow> point3 \<Rightarrow> rng \<Rightarrow> particle_system \<times> rng" where
  "emit_loop 0 ps parent_pos parent_rotation g = (ps, g)"
| "emit_loop (Suc n) ps parent_pos parent_rotation g =
     (case emit_one ps parent_pos parent_rotation g of
        (ps', g') \<Rightarrow> emit_loop n ps' parent_pos parent_rotation g')"


definition ParticleSystem_update ::
  "particle_system \<Rightarrow> real \<Rightarrow> point3 \<Rightarrow> point3 \<Rightarrow> real \<Rightarrow> rng
     \<Rightarrow> py_error + (particle_system \<times> rng)" where
  "ParticleSystem_update ps dt parent_pos parent_rotation camera_delta_z g =
     (let ps1 = ps\<lparr>time_since_last_emission := time_since_last_emission ps + dt\<rparr>;
          n = py_int (time_since_last_emission ps1 * emission_rate ps1)
      in case emit_loop (nat n) ps1 parent_pos parent_rotation g of (ps2, g') \<Rightarrow>
           (case py_truediv (real_of_int n) (emission_rate ps2) of
              Inl e \<Rightarrow> Inl e
            | Inr d \<Rightarrow>
                let ps3 = ps2\<lparr>time_since_last_emission := time_since_last_emission ps2 - d\<rparr>;
                    live_particles =
                      filter (\<lambda>p. p_current_lifetime p > 0)
                        (map (\<lambda>p. Particle_update p dt camera_delta_z) (particles ps3))
                in Inr (ps3\<lparr>particles := live_particles\<rparr>, g')))"

text \<open>The particle systems a call passes through: after the accumulator is advanced,
  after each pass of the emission loop, and at the end of the call when it returns.\<close>

fun emit_points :: "nat \<Rightarrow> particle_system \<Rightarrow> point3 \<Rightarrow> point3 \<Rightarrow> rng \<Rightarrow> particle_system list" where
  "emit_points 0 ps parent_pos parent_rotation g = []"
| "emit_points (Suc n) ps parent_pos parent_rotation g =
     (case emit_one ps parent_pos parent_rotation g of
        (ps', g') \<Rightarrow> ps' # emit_points n ps' parent_pos parent_rotation g')"

definition ParticleSystem_update_points ::
  "particle_system \<Rightarrow> real \<Rightarrow> point3 \<Rightarrow> point3 \<Rightarrow> real \<Rightarrow> rng \<Rightarrow> particle_system list" where
  "ParticleSystem_update_points ps dt parent_pos parent_rotation camera_delta_z g =
     (let ps1 = ps\<lparr>time_since_last_emission := time_since_last_emission ps + dt\<rparr>;
          n = py_int (time_since_last_emission ps1 * emission_rate ps1)
      in ps1 # emit_points (nat n) ps1 parent_pos parent_rotation g @
         (case ParticleSystem_update ps dt parent_pos parent_rotation camera_delta_z g of
            Inl e \<Rightarrow> []
          | Inr (ps', g') \<Rightarrow> [ps']))"

text \<open>A call of the main loop: \<^verbatim>\<open>(dt, parent_pos, parent_rotation, camera_delta_z)\<close>. A run
  stops at the first call that raises, as the uncaught exception ends the program.\<close>

type_synonym ps_call = "real \<times> point3 \<times> point3 \<times> real"

fun ParticleSystem_run :: "particle_system \<Rightarrow> rng \<Rightarrow> ps_call list \<Rightarrow> particle_system list" where
  "ParticleSystem_run ps g [] = []"
| "ParticleSystem_run ps g ((dt, parent_pos, parent_rotation, camera_delta_z) # calls) =
     (case ParticleSystem_update ps dt parent_pos parent_rotation camera_delta_z g of
        Inl e \<Rightarrow> []
      | Inr (ps', g') \<Rightarrow> ps' # ParticleSystem_run ps' g' calls)"

fun ParticleSystem_run_points :: "particle_system \<Rightarrow> rng \<Rightarrow> ps_call list \<Rightarrow> particle_system list" where
  "ParticleSystem_run_points ps g [] = []"
| "ParticleSystem_run_points ps g ((dt, parent_pos, parent_rotation, camera_delta_z) # calls) =
     ParticleSystem_update_points ps dt parent_pos parent_rotation camera_delta_z g @
     (case ParticleSystem_update ps dt parent_pos parent_rotation camera_delta_z g of
        Inl e \<Rightarrow> []
      | Inr (ps', g') \<Rightarrow> ParticleSystem_run_points ps' g' calls)"



section \<open>The mesh compositor\<close>

text \<open>
  What the main loop reads of a mesh entity (\<^verbatim>\<open>Cube\<close>, \<^verbatim>\<open>Pyramid\<close>, \<^verbatim>\<open>ShipModel\<close>,
  \<^verbatim>\<open>Asteroid\<close>): local vertices, faces as tuples of vertex indices, position, scale,
  the three angles, and the \<^verbatim>\<open>get_face_color\<close> method of its class.
\<close>

record mesh =
  obj_vertices :: "point3 list"
  obj_faces :: "nat list list"
  obj_x :: real
  obj_y :: real
  obj_z :: real
  obj_scale :: real
  obj_angle_x :: real
  obj_angle_y :: real
  obj_angle_z :: real
  obj_get_face_color :: "nat \<Rightarrow> point3 list \<Rightarrow> color"

type_synonym polygon = "real \<times> color \<times> (real \<times> real) list"

text \<open>Results in list order; the first one that raised is what the loop raises.\<close>

fun sequence_err :: "('e + 'a) list \<Rightarrow> 'e + 'a list" where
  "sequence_err [] = Inr []"
| "sequence_err (r # rs) =
     (case r of
        Inl e \<Rightarrow> Inl e
      | Inr v \<Rightarrow> (case sequence_err rs of Inl e \<Rightarrow> Inl e | Inr vs \<Rightarrow> Inr (v # vs)))"

text \<open>square6.py, lines 886-891.\<close>

definition transform_vertices :: "mesh \<Rightarrow> point3 list" where
  "transform_vertices obj =
     map (\<lambda>v. case rotate_point_3d v (obj_angle_x obj) (obj_angle_y obj) (obj_angle_z obj) of
                (r0, r1, r2) \<Rightarrow>
                  (r0 * obj_scale obj + obj_x obj,
                   r1 * obj_scale obj + obj_y obj,
                   r2 * obj_scale obj + obj_z obj))
         (obj_vertices obj)"

text \<open>square6.py, lines 893-896; \<^verbatim>\<open>projection_distance\<close> takes its default.\<close>

definition project_vertices ::
  "point3 list \<Rightarrow> real \<Rightarrow> real \<Rightarrow> real \<Rightarrow> py_error + (real \<times> real \<times> real \<times> real) option list" where
  "project_vertices transformed_vertices camera_x camera_y camera_z =
     sequence_err
       (map (\<lambda>v_world. project_point v_world camera_x camera_y camera_z
               (real_of_int (WIDTH div 2)) (real_of_int (HEIGHT div 2)) CAMERA_DEFAULT_Z)
            transformed_vertices)"

text \<open>square6.py, lines 899-904, for one face: \<open>None\<close> when a vertex of the face is
  clipped. The list comprehension inside \<^verbatim>\<open>all\<close> indexes every vertex first.\<close>

definition face_polygon ::
  "mesh \<Rightarrow> point3 list \<Rightarrow> (real \<times> real \<times> real \<times> real) option list \<Rightarrow> nat \<Rightarrow> nat list
     \<Rightarrow> py_error + polygon option" where
  "face_polygon obj transformed_vertices projected_vertices_data i face =
     (case sequence_err (map (py_index projected_vertices_data) face) of
        Inl e \<Rightarrow> Inl e
      | Inr face_data \<Rightarrow>
          (case those face_data of
             None \<Rightarrow> Inr None
           | Some visible \<Rightarrow>
               (case py_truediv (sum_list (map (\<lambda>(a, b, c, d). d) visible)) (real (length face)) of
                  Inl e \<Rightarrow> Inl e
                | Inr face_avg_z \<Rightarrow>
                    Inr (Some (face_avg_z,
                               obj_get_face_color obj i transformed_vertices,
                               map (\<lambda>(a, b, c, d). (a, b)) visible)))))"

definition object_polygons :: "mesh \<Rightarrow> real \<Rightarrow> real \<Rightarrow> real \<Rightarrow> py_error + polygon list" where
  "object_polygons obj camera_x camera_y camera_z =
     (let transformed_vertices = transform_vertices obj in
      case project_vertices transformed_vertices camera_x camera_y camera_z of
        Inl e \<Rightarrow> Inl e
      | Inr projected_vertices_data \<Rightarrow>
          (case sequence_err
                  (map (\<lambda>(i, face). face_polygon obj transformed_vertices projected_vertices_data i face)
                       (enumerate 0 (obj_faces obj))) of
             Inl e \<Rightarrow> Inl e
           | Inr rs \<Rightarrow> Inr (List.map_filter (\<lambda>r. r) rs)))"

text \<open>\<^verbatim>\<open>all_polygons_to_draw\<close> before the sort; \<open>objs\<close> is \<^verbatim>\<open>objects + asteroids\<close>.\<close>

definition collect_polygons :: "mesh list \<Rightarrow> real \<Rightarrow> real \<Rightarrow> real \<Rightarrow> py_error + polygon list" where
  "collect_polygons objs camera_x camera_y camera_z =
     (case sequence_err (map (\<lambda>obj. object_polygons obj camera_x camera_y camera_z) objs) of
        Inl e \<Rightarrow> Inl e
      | Inr pss \<Rightarrow> Inr (concat pss))"

text \<open>\<^verbatim>\<open>list.sort(key=lambda x: x[0], reverse=True)\<close>: a stable sort; with
  \<^verbatim>\<open>reverse=True\<close> the list is reversed, sorted and reversed again, which keeps
  entries of equal key in their first order.\<close>

definition sort_reverse :: "polygon list \<Rightarrow> polygon list" where
  "sort_reverse polys = rev (sort_key fst (rev polys))"

text \<open>The body of the drawing loop (square6.py, lines 908-924): the surface blitted for a
  polygon, if any.\<close>

record blit =
  surf_width :: int
  surf_height :: int
  fill_color :: color
  relative_points_2d :: "(real \<times> real) list"
  dest :: "int \<times> int"

definition draw_polygon :: "polygon \<Rightarrow> blit option" where
  "draw_polygon poly =
     (case poly of (z_depth, color, points_2d) \<Rightarrow>
        if length points_2d \<ge> 3
        then
          (case points_2d of
             [] \<Rightarrow> None
           | p # ps \<Rightarrow>
               let min_x = fold min (map fst ps) (fst p);
                   max_x = fold max (map fst ps) (fst p);
                   min_y = fold min (map snd ps) (snd p);
                   max_y = fold max (map snd ps) (snd p);
                   w = py_int (max_x - min_x) + 2;
                   h = py_int (max_y - min_y) + 2
               in if w > 0 \<and> h > 0
                  then Some \<lparr>surf_width = w, surf_height = h, fill_color = color,
                             relative_points_2d =
                               map (\<lambda>q. (fst q - min_x + 1, snd q - min_y + 1)) points_2d,
                             dest = (py_int min_x, py_int min_y)\<rparr>
                  else None)
        else None)"

text \<open>The drawing loop over the sorted list: each surface it blits, in order, with the
  \<^verbatim>\<open>z_depth\<close> of the loop variable it was drawn for.\<close>

definition draw_polygons :: "polygon list \<Rightarrow> (real \<times> blit) list" where
  "draw_polygons polys =
     List.map_filter (\<lambda>poly. map_option (\<lambda>b. (fst poly, b)) (draw_polygon poly)) polys"

definition render_meshes :: "mesh list \<Rightarrow> real \<Rightarrow> real \<Rightarrow> real \<Rightarrow> py_error + (real \<times> blit) list" where
  "render_meshes objs camera_x camera_y camera_z =
     (case collect_polygons objs camera_x camera_y camera_z of
        Inl e \<Rightarrow> Inl e
      | Inr all_polygons_to_draw \<Rightarrow> Inr (draw_polygons (sort_reverse all_polygons_to_draw)))"

text \<open>The same loop in square5.py (lines 794-816): \<^verbatim>\<open>all\<close> runs over a generator and
  stops at the first clipped vertex, and the key is taken from
  \<^verbatim>\<open>transformed_vertices\<close>.\<close>

definition transform_vertices_sq5 :: "mesh \<Rightarrow> point3 list" where
  "transform_vertices_sq5 obj =
     map (\<lambda>v. case rotate_point_3d_sq5 v (obj_angle_x obj) (obj_angle_y obj) (obj_angle_z obj) of
                (r0, r1, r2) \<Rightarrow>
                  (r0 * obj_scale obj + obj_x obj,
                   r1 * obj_scale obj + obj_y obj,
                   r2 * obj_scale obj + obj_z obj))
         (obj_vertices obj)"

definition project_vertices_sq5 ::
  "point3 list \<Rightarrow> real \<Rightarrow> real \<Rightarrow> real \<Rightarrow> py_error + (real \<times> real \<times> real) option list" where
  "project_vertices_sq5 transformed_vertices camera_x camera_y camera_z =
     sequence_err
       (map (\<lambda>v_world. project_point_sq5 v_world camera_x camera_y camera_z
               (real_of_int (WIDTH div 2)) (real_of_int (HEIGHT div 2)) CAMERA_DEFAULT_Z)
            transformed_vertices)"

fun all_projected_sq5 :: "(real \<times> real \<times> real) option list \<Rightarrow> nat list \<Rightarrow> py_error + bool" where
  "all_projected_sq5 projected_vertices [] = Inr True"
| "all_projected_sq5 projected_vertices (v_idx # rest) =
     (case py_index projected_vertices v_idx of
        Inl e \<Rightarrow> Inl e
      | Inr None \<Rightarrow> Inr False
      | Inr (Some pr) \<Rightarrow> all_projected_sq5 projected_vertices rest)"

definition face_polygon_sq5 ::
  "mesh \<Rightarrow> point3 list \<Rightarrow> (real \<times> real \<times> real) option list \<Rightarrow> nat \<Rightarrow> nat list
     \<Rightarrow> py_error + polygon option" where
  "face_polygon_sq5 obj transformed_vertices projected_vertices i face =
     (case all_projected_sq5 projected_vertices face of
        Inl e \<Rightarrow> Inl e
      | Inr False \<Rightarrow> Inr None
      | Inr True \<Rightarrow>
          (case sequence_err (map (py_index transformed_vertices) face) of
             Inl e \<Rightarrow> Inl e
           | Inr world \<Rightarrow>
               (case py_truediv (sum_list (map (\<lambda>(a, b, c). c) world)) (real (length face)) of
                  Inl e \<Rightarrow> Inl e
                | Inr face_avg_z \<Rightarrow>
                    (case sequence_err (map (py_index projected_vertices) face) of
                       Inl e \<Rightarrow> Inl e
                     | Inr face_data \<Rightarrow>
                         (case those face_data of
                            None \<Rightarrow> Inl TypeError
                          | Some visible \<Rightarrow>
                              Inr (Some (face_avg_z,
                                         obj_get_face_color obj i transformed_vertices,
                                         map (\<lambda>(a, b, c). (a, b)) visible)))))))"

definition object_polygons_sq5 :: "mesh \<Rightarrow> real \<Rightarrow> real \<Rightarrow> real \<Rightarrow> py_error + polygon list" where
  "object_polygons_sq5 obj camera_x camera_y camera_z =
     (let transformed_vertices = transform_vertices_sq5 obj in
      case project_vertices_sq5 transformed_vertices camera_x camera_y camera_z of
        Inl e \<Rightarrow> Inl e
      | Inr projected_vertices \<Rightarrow>
          (case sequence_err
                  (map (\<lambda>(i, face). face_polygon_sq5 obj transformed_vertices projected_vertices i face)
                       (enumerate 0 (obj_faces obj))) of
             Inl e \<Rightarrow> Inl e
           | Inr rs \<Rightarrow> Inr (List.map_filter (\<lambda>r. r) rs)))"

definition collect_polygons_sq5 :: "mesh list \<Rightarrow> real \<Rightarrow> real \<Rightarrow> real \<Rightarrow> py_error + polygon list" where
  "collect_polygons_sq5 objs camera_x camera_y camera_z =
     (case sequence_err (map (\<lambda>obj. object_polygons_sq5 obj camera_x camera_y camera_z) objs) of
        Inl e \<Rightarrow> Inl e
      | Inr pss \<Rightarrow> Inr (concat pss))"

definition render_meshes_sq5 :: "mesh list \<Rightarrow> real \<Rightarrow> real \<Rightarrow> real \<Rightarrow> py_error + (real \<times> blit) list" where
  "render_meshes_sq5 objs camera_x camera_y camera_z =
     (case collect_polygons_sq5 objs camera_x camera_y camera_z of
        Inl e \<Rightarrow> Inl e
      | Inr all_polygons_to_draw \<Rightarrow> Inr (draw_polygons (sort_reverse all_polygons_to_draw)))"

section \<open>The compositor as the specification words it\<close>

text \<open>
  The specification's account of the collected list, to compare the loops above with: a
  face is kept when every vertex of it lies between the clip planes in camera space, its
  key is the average, over its vertices, of the depth in camera space (world \<open>z\<close> minus
  camera \<open>z\<close>), and the polygons of all meshes are put in one list, mesh after mesh and
  face after face. \<open>far\<close> is the far plane of the variant.
\<close>

definition mesh_ok :: "mesh \<Rightarrow> bool" where
  "mesh_ok obj =
     list_all (\<lambda>face. face \<noteq> [] \<and> list_all (\<lambda>v_idx. v_idx < length (obj_vertices obj)) face)
       (obj_faces obj)"

definition vertex_visible :: "real \<Rightarrow> point3 \<Rightarrow> real \<Rightarrow> bool" where
  "vertex_visible far v camera_z =
     (CAMERA_NEAR_CLIP \<le> snd (snd v) - camera_z \<and> snd (snd v) - camera_z \<le> far)"

definition screen_xy :: "point3 \<Rightarrow> real \<Rightarrow> real \<Rightarrow> real \<Rightarrow> real \<times> real" where
  "screen_xy v camera_x camera_y camera_z =
     ((fst v - camera_x) * (CAMERA_DEFAULT_Z / (snd (snd v) - camera_z)) + real_of_int (WIDTH div 2),
      (fst (snd v) - camera_y) * (CAMERA_DEFAULT_Z / (snd (snd v) - camera_z)) + real_of_int (HEIGHT div 2))"

definition spec_projection ::
  "real \<Rightarrow> point3 \<Rightarrow> real \<Rightarrow> real \<Rightarrow> real \<Rightarrow> (real \<times> real \<times> real \<times> real) option" where
  "spec_projection far v camera_x camera_y camera_z =
     (if vertex_visible far v camera_z
      then Some (fst (screen_xy v camera_x camera_y camera_z),
                 snd (screen_xy v camera_x camera_y camera_z),
                 max 0.1 (1 - (snd (snd v) - camera_z - CAMERA_NEAR_CLIP) / (far - CAMERA_NEAR_CLIP)),
                 snd (snd v) - camera_z)
      else None)"

definition face_view_depth :: "point3 list \<Rightarrow> real \<Rightarrow> nat list \<Rightarrow> real" where
  "face_view_depth transformed_vertices camera_z face =
     sum_list (map (\<lambda>v_idx. snd (snd (transformed_vertices ! v_idx)) - camera_z) face)
       / real (length face)"

definition spec_face_polygon ::
  "real \<Rightarrow> mesh \<Rightarrow> real \<Rightarrow> real \<Rightarrow> real \<Rightarrow> nat \<Rightarrow> nat list \<Rightarrow> polygon option" where
  "spec_face_polygon far obj camera_x camera_y camera_z i face =
     (let world = transform_vertices obj in
      if list_all (\<lambda>v_idx. vertex_visible far (world ! v_idx) camera_z) face
      then Some (face_view_depth world camera_z face,
                 obj_get_face_color obj i world,
                 map (\<lambda>v_idx. screen_xy (world ! v_idx) camera_x camera_y camera_z) face)
      else None)"

text \<open>A polygon with its key moved by \<open>c\<close>.\<close>

definition shift_key :: "real \<Rightarrow> polygon \<Rightarrow> polygon" where
  "shift_key c poly = (fst poly + c, snd poly)"

definition spec_polygons :: "real \<Rightarrow> mesh list \<Rightarrow> real \<Rightarrow> real \<Rightarrow> real \<Rightarrow> polygon list" where
  "spec_polygons far objs camera_x camera_y camera_z =
     concat (map (\<lambda>obj. List.map_filter
                          (\<lambda>(i, face). spec_face_polygon far obj camera_x camera_y camera_z i face)
                          (enumerate 0 (obj_faces obj)))
                 objs)"

section \<open>Projection: clipping, screen coordinates and size factor\<close>

lemma project_point_eq:
  "project_point (p0, p1, p2) cx cy cz sx sy pd =
     (if p2 - cz < CAMERA_NEAR_CLIP \<or> p2 - cz > CAMERA_FAR_CLIP then Inr None
      else Inr (Some ((p0 - cx) * (pd / (p2 - cz)) + sx,
                      (p1 - cy) * (pd / (p2 - cz)) + sy,
                      max 0.1 (1 - (p2 - cz - CAMERA_NEAR_CLIP) / (CAMERA_FAR_CLIP - CAMERA_NEAR_CLIP)),
                      p2 - cz)))"
  by (simp add: project_point_def py_truediv_def Let_def CAMERA_NEAR_CLIP_def CAMERA_FAR_CLIP_def)

lemma project_point_sq5_eq:
  "project_point_sq5 (p0, p1, p2) cx cy cz sx sy pd =
     (if p2 - cz < CAMERA_NEAR_CLIP \<or> p2 - cz > CAMERA_FAR_CLIP_sq5 then Inr None
      else Inr (Some ((p0 - cx) * (pd / (p2 - cz)) + sx,
                      (p1 - cy) * (pd / (p2 - cz)) + sy,
                      max 0.1 (1 - (p2 - cz - CAMERA_NEAR_CLIP) / (CAMERA_FAR_CLIP_sq5 - CAMERA_NEAR_CLIP)))))"
  by (simp add: project_point_sq5_def py_truediv_def Let_def CAMERA_NEAR_CLIP_def CAMERA_FAR_CLIP_sq5_def)

text \<open>
  C1 (as amended). \<^verbatim>\<open>project_point\<close> returns \<open>None\<close> exactly when the depth in camera
  space, \<open>point.z - camera.z\<close>, is below \<open>CAMERA_NEAR_CLIP\<close> or above the far plane of
  the variant. Otherwise it returns finite screen coordinates,
  \<open>(point.x - camera.x) * (projection_distance / depth) + screen_center.x\<close> and
  \<open>(point.y - camera.y) * (projection_distance / depth) + screen_center.y\<close>, and the size
  factor; square6.py returns the depth as a fourth component, square5.py returns the
  triple without it. No call raises: the divide is by a depth of at least
  \<open>CAMERA_NEAR_CLIP\<close>.
\<close>

theorem project_point_contract:
  "project_point (p0, p1, p2) cx cy cz sx sy pd =
     (if p2 - cz < CAMERA_NEAR_CLIP \<or> p2 - cz > CAMERA_FAR_CLIP then Inr None
      else Inr (Some ((p0 - cx) * (pd / (p2 - cz)) + sx,
                      (p1 - cy) * (pd / (p2 - cz)) + sy,
                      max 0.1 (1 - (p2 - cz - CAMERA_NEAR_CLIP) / (CAMERA_FAR_CLIP - CAMERA_NEAR_CLIP)),
                      p2 - cz)))
   \<and> project_point_sq5 (p0, p1, p2) cx cy cz sx sy pd =
     (if p2 - cz < CAMERA_NEAR_CLIP \<or> p2 - cz > CAMERA_FAR_CLIP_sq5 then Inr None
      else Inr (Some ((p0 - cx) * (pd / (p2 - cz)) + sx,
                      (p1 - cy) * (pd / (p2 - cz)) + sy,
                      max 0.1 (1 - (p2 - cz - CAMERA_NEAR_CLIP) / (CAMERA_FAR_CLIP_sq5 - CAMERA_NEAR_CLIP)))))"
  using project_point_eq project_point_sq5_eq by simp

text \<open>In square5.py two points of different depth have the same result: the depth is
  not part of what \<^verbatim>\<open>project_point\<close> returns there.\<close>

theorem project_point_sq5_drops_depth:
  "project_point_sq5 (0, 0, 4600) 0 0 0 600 400 300 = Inr (Some (600, 400, 1 / 10))
   \<and> project_point_sq5 (0, 0, 4800) 0 0 0 600 400 300 = Inr (Some (600, 400, 1 / 10))"
  by (simp add: project_point_sq5_eq CAMERA_NEAR_CLIP_def CAMERA_FAR_CLIP_sq5_def)

theorem project_point_contract_witness:
  "project_point (10, 20, 300) 0 0 0 600 400 300 = Inr (Some (610, 420, max (1/10) (1 - 299 / 5999), 300))
   \<and> project_point (10, 20, 7000) 0 0 0 600 400 300 = Inr None
   \<and> project_point_sq5 (10, 20, 300) 0 0 0 600 400 300 = Inr (Some (610, 420, max (1/10) (1 - 299 / 4999)))"
  using project_point_contract [of 10 20 300 0 0 0 600 400 300]
        project_point_contract [of 10 20 7000 0 0 0 600 400 300]
  by (simp add: CAMERA_NEAR_CLIP_def CAMERA_FAR_CLIP_def CAMERA_FAR_CLIP_sq5_def)








section \<open>Rotation across the variants\<close>

lemma rotate_point_3d_sq5_eq:
  "rotate_point_3d_sq5 p ax ay az = rotate_point_3d p ax ay az"
  by (simp add: rotate_point_3d_sq5_def rotate_point_3d_def)

lemma rotate_point_3d_sq4_eq:
  "rotate_point_3d_sq4 p ax ay az = rotate_point_3d p ax (- ay) az"
  by (simp add: rotate_point_3d_sq4_def rotate_point_3d_def Let_def split: prod.splits)

text \<open>
  C5 (as amended). \<^verbatim>\<open>rotate_point_3d\<close> of square5.py and of square6.py return the same
  point at every input. The function of square4.py turns about the Y axis the other way:
  at every input it returns what the function of square6.py returns for the negated
  \<^verbatim>\<open>angle_y\<close>.
\<close>

theorem rotate_point_3d_variants:
  "rotate_point_3d_sq5 p ax ay az = rotate_point_3d p ax ay az \<and>
   rotate_point_3d_sq4 p ax ay az = rotate_point_3d p ax (- ay) az"
  using rotate_point_3d_sq5_eq rotate_point_3d_sq4_eq by simp

text \<open>A quarter turn about Y sends the unit X vector to opposite points.\<close>

theorem rotate_point_3d_sq4_differs:
  "rotate_point_3d_sq4 (1, 0, 0) 0 (pi / 2) 0 = (0, 0, 1) \<and>
   rotate_point_3d (1, 0, 0) 0 (pi / 2) 0 = (0, 0, - 1) \<and>
   rotate_point_3d_sq5 (1, 0, 0) 0 (pi / 2) 0 = (0, 0, - 1)"
  by (simp add: rotate_point_3d_sq4_def rotate_point_3d_def rotate_point_3d_sq5_def)

section \<open>The warp factor under large time steps\<close>

lemma warp_ticks_closed_form:
  "warp_ticks n True w dt = 1 - (1 - w) * (1 - 5 * dt) ^ n"
proof (induction n arbitrary: w)
  case 0
  show ?case by simp
next
  case (Suc n)
  have step: "1 - warp_step True w dt = (1 - w) * (1 - 5 * dt)"
    by (simp add: warp_step_def lerp_def algebra_simps)
  have "warp_ticks (Suc n) True w dt = 1 - (1 - warp_step True w dt) * (1 - 5 * dt) ^ n"
    using Suc.IH [of "warp_step True w dt"] by simp
  also have "\<dots> = 1 - (1 - w) * (1 - 5 * dt) ^ Suc n"
    unfolding step by simp
  finally show ?case .
qed

lemma warp_ticks_small_dt:
  assumes "0 < dt" "dt \<le> 1 / 5"
  shows "0 \<le> warp_ticks n True 0 dt \<and>
         warp_ticks n True 0 dt \<le> warp_ticks (Suc n) True 0 dt \<and>
         warp_ticks (Suc n) True 0 dt \<le> 1"
proof -
  let ?q = "1 - 5 * dt"
  have q: "0 \<le> ?q" "?q \<le> 1" using assms by simp_all
  have p0: "0 \<le> ?q ^ n" using q by simp
  have p1: "?q ^ n \<le> 1" using q by (simp add: power_le_one)
  have p2: "?q ^ Suc n \<le> ?q ^ n" using q by (simp add: mult_left_le_one_le)
  have p3: "0 \<le> ?q ^ Suc n" using q by simp
  show ?thesis
    unfolding warp_ticks_closed_form using p0 p1 p2 p3 by simp
qed

text \<open>
  C6. With the warp key on and \<open>warp_factor\<close> at 0, a tick of \<open>dt = 0.3\<close> takes the warp
  factor to 1.5, and two ticks of \<open>dt = 0.5\<close> take it to 2.5 and then to -1.25: the step
  \<^verbatim>\<open>lerp(warp_factor, 1.0, 5.0 * dt)\<close> is called with \<open>t > 1\<close> whenever \<open>dt > 0.2\<close>.
\<close>

theorem warp_factor_overshoot:
  "warp_ticks 1 True 0 (3 / 10) = 3 / 2 \<and>
   warp_ticks 1 True 0 (1 / 2) = 5 / 2 \<and>
   warp_ticks 2 True 0 (1 / 2) = - 5 / 4"
  by (simp add: warp_ticks_closed_form power2_eq_square)

section \<open>The depth of a star\<close>

lemma uniform_cases:
  assumes "uniform a b g = (r, g')" "rng_ok g"
  shows "rng_ok g'" and "a \<le> b \<Longrightarrow> a \<le> r \<and> r \<le> b"
proof -
  from assms(1) have r: "r = a + (b - a) * draws g (pos g)" and g': "g' = g\<lparr>pos := Suc (pos g)\<rparr>"
    by (simp_all add: uniform_def random_def)
  from assms(2) have u: "0 \<le> draws g (pos g)" "draws g (pos g) < 1"
    by (simp_all add: rng_ok_def)
  show "rng_ok g'" using assms(2) g' by (simp add: rng_ok_def)
  show "a \<le> r \<and> r \<le> b" if "a \<le> b"
  proof -
    have "0 \<le> (b - a) * draws g (pos g)" using that u by simp
    moreover have "(b - a) * draws g (pos g) \<le> (b - a) * 1"
      using that u by (intro mult_left_mono) simp_all
    ultimately show ?thesis using r by simp
  qed
qed

lemma Star_reset_cases:
  assumes "Star_reset s g = (s', g')" "rng_ok g"
  shows "rng_ok g'" and "CAMERA_DEFAULT_Z + 100 \<le> star_z s'" and "star_z s' \<le> CAMERA_FAR_CLIP - 100"
proof -
  obtain x g1 where u1: "uniform (- WORLD_SIZE) WORLD_SIZE g = (x, g1)"
    by (cases "uniform (- WORLD_SIZE) WORLD_SIZE g")
  obtain y g2 where u2: "uniform (- WORLD_SIZE) WORLD_SIZE g1 = (y, g2)"
    by (cases "uniform (- WORLD_SIZE) WORLD_SIZE g1")
  obtain z g3 where u3: "uniform (CAMERA_DEFAULT_Z + 100) (CAMERA_FAR_CLIP - 100) g2 = (z, g3)"
    by (cases "uniform (CAMERA_DEFAULT_Z + 100) (CAMERA_FAR_CLIP - 100) g2")
  from assms(1) u1 u2 u3 have e: "g' = g3" "star_z s' = z"
    by (auto simp add: Star_reset_def)
  have ok: "rng_ok g2" "rng_ok g3"
    using uniform_cases(1) [OF u1 assms(2)] uniform_cases(1) [OF u2] uniform_cases(1) [OF u3]
    by blast+
  have "CAMERA_DEFAULT_Z + 100 \<le> CAMERA_FAR_CLIP - 100"
    by (simp add: CAMERA_DEFAULT_Z_def CAMERA_FAR_CLIP_def)
  from uniform_cases(2) [OF u3 ok(1) this] e ok
  show "rng_ok g'" and "CAMERA_DEFAULT_Z + 100 \<le> star_z s'" and "star_z s' \<le> CAMERA_FAR_CLIP - 100"
    by simp_all
qed

lemma Star_update_shape:
  assumes "Star_update s dz w g = (s', g')"
  shows "(g' = g \<and> star_z s' = star_z s + dz - dz * w * 20 \<and>
          CAMERA_NEAR_CLIP \<le> star_z s' \<and> star_z s' \<le> CAMERA_FAR_CLIP)
       \<or> ((star_z s + dz - dz * w * 20 < CAMERA_NEAR_CLIP \<or>
            star_z s + dz - dz * w * 20 > CAMERA_FAR_CLIP) \<and>
           (\<exists>s3 s4 g1 r. Star_reset s3 g = (s4, g1) \<and> uniform 0 (WORLD_SIZE / 2) g1 = (r, g') \<and>
              star_z s' = (if star_z s4 > CAMERA_FAR_CLIP
                           then CAMERA_NEAR_CLIP + WORLD_SIZE + r else CAMERA_FAR_CLIP - r)))"
proof (cases "star_z s + dz - dz * w * 20 < CAMERA_NEAR_CLIP \<or>
              star_z s + dz - dz * w * 20 > CAMERA_FAR_CLIP")
  case False
  with assms show ?thesis
    by (auto simp add: Star_update_def Let_def split: if_splits)
next
  case True
  with assms have "\<exists>s3 s4 g1 r. Star_reset s3 g = (s4, g1) \<and> uniform 0 (WORLD_SIZE / 2) g1 = (r, g') \<and>
              star_z s' = (if star_z s4 > CAMERA_FAR_CLIP
                           then CAMERA_NEAR_CLIP + WORLD_SIZE + r else CAMERA_FAR_CLIP - r)"
    by (simp add: Star_update_def Let_def split: if_splits prod.splits) fastforce+
  with True show ?thesis by blast
qed

lemma Star_update_depth:
  assumes "Star_update s dz w g = (s', g')" "rng_ok g"
  shows "rng_ok g'" and "CAMERA_NEAR_CLIP \<le> star_z s'" and "star_z s' \<le> CAMERA_FAR_CLIP"
    and "star_z s + dz - dz * w * 20 < CAMERA_NEAR_CLIP \<or> star_z s + dz - dz * w * 20 > CAMERA_FAR_CLIP
           \<Longrightarrow> CAMERA_FAR_CLIP - WORLD_SIZE / 2 \<le> star_z s'"
proof -
  have "rng_ok g' \<and> CAMERA_NEAR_CLIP \<le> star_z s' \<and> star_z s' \<le> CAMERA_FAR_CLIP \<and>
        (star_z s + dz - dz * w * 20 < CAMERA_NEAR_CLIP \<or> star_z s + dz - dz * w * 20 > CAMERA_FAR_CLIP
           \<longrightarrow> CAMERA_FAR_CLIP - WORLD_SIZE / 2 \<le> star_z s')"
  proof -
    from Star_update_shape [OF assms(1)] consider
      (keep) "g' = g" "CAMERA_NEAR_CLIP \<le> star_z s'" "star_z s' \<le> CAMERA_FAR_CLIP"
        "star_z s' = star_z s + dz - dz * w * 20"
    | (reset) s3 s4 g1 r where "Star_reset s3 g = (s4, g1)"
        "uniform 0 (WORLD_SIZE / 2) g1 = (r, g')"
        "star_z s' = (if star_z s4 > CAMERA_FAR_CLIP
                      then CAMERA_NEAR_CLIP + WORLD_SIZE + r else CAMERA_FAR_CLIP - r)"
      by blast
    then show ?thesis
    proof cases
      case keep
      with assms(2) show ?thesis by simp
    next
      case (reset s3 s4 g1 r)
      note reset = reset(1) and draw = reset(2) and z = reset(3)
    have g1: "rng_ok g1" and z4: "star_z s4 \<le> CAMERA_FAR_CLIP - 100"
      using Star_reset_cases [OF reset assms(2)] by simp_all
    have "(0::real) \<le> WORLD_SIZE / 2" by (simp add: WORLD_SIZE_def)
    with uniform_cases [OF draw g1] have g': "rng_ok g'" and r: "0 \<le> r" "r \<le> WORLD_SIZE / 2"
      by simp_all
    from z z4 have "star_z s' = CAMERA_FAR_CLIP - r" by simp
    with g' r show ?thesis
      by (simp add: CAMERA_NEAR_CLIP_def CAMERA_FAR_CLIP_def WORLD_SIZE_def)
    qed
  qed
  then show "rng_ok g'" and "CAMERA_NEAR_CLIP \<le> star_z s'" and "star_z s' \<le> CAMERA_FAR_CLIP"
    and "star_z s + dz - dz * w * 20 < CAMERA_NEAR_CLIP \<or> star_z s + dz - dz * w * 20 > CAMERA_FAR_CLIP
           \<Longrightarrow> CAMERA_FAR_CLIP - WORLD_SIZE / 2 \<le> star_z s'"
    by simp_all
qed

lemma Star_update_sq5_shape:
  assumes "Star_update_sq5 s dz w g = (s', g')"
  shows "(g' = g \<and> star_z s' = star_z s + dz - dz * w * 10 \<and>
          CAMERA_NEAR_CLIP \<le> star_z s' \<and> star_z s' \<le> CAMERA_FAR_CLIP_sq5)
       \<or> (\<exists>r. uniform 0 WORLD_SIZE_sq5 g = (r, g') \<and>
            (if star_z s + dz - dz * w * 10 > CAMERA_FAR_CLIP_sq5
             then star_z s' = CAMERA_NEAR_CLIP + WORLD_SIZE_sq5 + r
             else star_z s + dz - dz * w * 10 < CAMERA_NEAR_CLIP \<and>
                  star_z s' = CAMERA_FAR_CLIP_sq5 - 100 - r))"
  using assms
  by (auto simp add: Star_update_sq5_def Let_def split: if_splits prod.splits)

lemma Star_update_sq5_depth:
  assumes "Star_update_sq5 s dz w g = (s', g')" "rng_ok g"
  shows "rng_ok g'" and "CAMERA_NEAR_CLIP \<le> star_z s'" and "star_z s' \<le> CAMERA_FAR_CLIP_sq5"
    and "star_z s + dz - dz * w * 10 < CAMERA_NEAR_CLIP
           \<Longrightarrow> CAMERA_FAR_CLIP_sq5 - 100 - WORLD_SIZE_sq5 \<le> star_z s' \<and>
               star_z s' \<le> CAMERA_FAR_CLIP_sq5 - 100"
proof -
  have "rng_ok g' \<and> CAMERA_NEAR_CLIP \<le> star_z s' \<and> star_z s' \<le> CAMERA_FAR_CLIP_sq5 \<and>
        (star_z s + dz - dz * w * 10 < CAMERA_NEAR_CLIP
           \<longrightarrow> CAMERA_FAR_CLIP_sq5 - 100 - WORLD_SIZE_sq5 \<le> star_z s' \<and>
               star_z s' \<le> CAMERA_FAR_CLIP_sq5 - 100)"
  proof -
    from Star_update_sq5_shape [OF assms(1)] consider
      (keep) "g' = g" "CAMERA_NEAR_CLIP \<le> star_z s'" "star_z s' \<le> CAMERA_FAR_CLIP_sq5"
        "star_z s' = star_z s + dz - dz * w * 10"
    | (reset) r where "uniform 0 WORLD_SIZE_sq5 g = (r, g')"
        "if star_z s + dz - dz * w * 10 > CAMERA_FAR_CLIP_sq5
         then star_z s' = CAMERA_NEAR_CLIP + WORLD_SIZE_sq5 + r
         else star_z s + dz - dz * w * 10 < CAMERA_NEAR_CLIP \<and>
              star_z s' = CAMERA_FAR_CLIP_sq5 - 100 - r"
      by blast
    then show ?thesis
    proof cases
      case keep
      with assms(2) show ?thesis by simp
    next
      case (reset r)
      note draw = reset(1) and z = reset(2)
    have "(0::real) \<le> WORLD_SIZE_sq5" by (simp add: WORLD_SIZE_sq5_def)
    with uniform_cases [OF draw assms(2)] have g': "rng_ok g'" and r: "0 \<le> r" "r \<le> WORLD_SIZE_sq5"
      by simp_all
    from z g' r show ?thesis
      by (auto simp add: CAMERA_NEAR_CLIP_def CAMERA_FAR_CLIP_sq5_def WORLD_SIZE_sq5_def
          split: if_splits)
    qed
  qed
  then show "rng_ok g'" and "CAMERA_NEAR_CLIP \<le> star_z s'" and "star_z s' \<le> CAMERA_FAR_CLIP_sq5"
    and "star_z s + dz - dz * w * 10 < CAMERA_NEAR_CLIP
           \<Longrightarrow> CAMERA_FAR_CLIP_sq5 - 100 - WORLD_SIZE_sq5 \<le> star_z s' \<and>
               star_z s' \<le> CAMERA_FAR_CLIP_sq5 - 100"
    by simp_all
qed

lemma Star_run_depth:
  "rng_ok g \<Longrightarrow>
     length (Star_run s g calls) = length calls \<and>
     (\<forall>s' \<in> set (Star_run s g calls). CAMERA_NEAR_CLIP \<le> star_z s' \<and> star_z s' \<le> CAMERA_FAR_CLIP)"
proof (induction calls arbitrary: s g)
  case Nil
  show ?case by simp
next
  case (Cons c calls)
  obtain dz w where c: "c = (dz, w)" by (cases c)
  obtain s' g' where u: "Star_update s dz w g = (s', g')" by (cases "Star_update s dz w g")
  note d = Star_update_depth [OF u Cons.prems]
  from Cons.IH [OF d(1), of s'] d(2,3) show ?case
    by (simp add: c u)
qed

lemma Star_run_sq5_depth:
  "rng_ok g \<Longrightarrow>
     length (Star_run_sq5 s g calls) = length calls \<and>
     (\<forall>s' \<in> set (Star_run_sq5 s g calls).
        CAMERA_NEAR_CLIP \<le> star_z s' \<and> star_z s' \<le> CAMERA_FAR_CLIP_sq5)"
proof (induction calls arbitrary: s g)
  case Nil
  show ?case by simp
next
  case (Cons c calls)
  obtain dz w where c: "c = (dz, w)" by (cases c)
  obtain s' g' where u: "Star_update_sq5 s dz w g = (s', g')" by (cases "Star_update_sq5 s dz w g")
  note d = Star_update_sq5_depth [OF u Cons.prems]
  from Cons.IH [OF d(1), of s'] d(2,3) show ?case
    by (simp add: c u)
qed

text \<open>
  C3. Whatever the star and whatever the depth deltas and warp factors of a finite
  sequence of \<^verbatim>\<open>Star.update\<close> calls, every call returns and leaves the depth \<open>z\<close> of the
  star within \<open>[CAMERA_NEAR_CLIP, CAMERA_FAR_CLIP]\<close>, in square6.py and in square5.py
  (each with its own far plane).
\<close>

theorem star_depth_invariant:
  assumes "rng_ok g"
  shows "length (Star_run s g calls) = length calls \<and>
         (\<forall>s' \<in> set (Star_run s g calls).
            CAMERA_NEAR_CLIP \<le> star_z s' \<and> star_z s' \<le> CAMERA_FAR_CLIP) \<and>
         length (Star_run_sq5 s g calls) = length calls \<and>
         (\<forall>s' \<in> set (Star_run_sq5 s g calls).
            CAMERA_NEAR_CLIP \<le> star_z s' \<and> star_z s' \<le> CAMERA_FAR_CLIP_sq5)"
  using Star_run_depth [OF assms] Star_run_sq5_depth [OF assms] by simp

theorem star_depth_invariant_witness:
  "rng_ok \<lparr>draws = \<lambda>n. 1 / 2, pos = 0\<rparr> \<and>
   map star_z (Star_run
       \<lparr>star_initial_size = 1, star_base_color = (255, 255, 255), star_x = 0, star_y = 0, star_z = 2, star_size = 1,
        star_trail_length = 0, star_trail_alpha = 255\<rparr>
       \<lparr>draws = \<lambda>n. 1 / 2, pos = 0\<rparr> [(- 5, 0), (7000, 0), (- 10, 0)]) = [5250, 5250, 5240] \<and>
   CAMERA_NEAR_CLIP \<le> 5240 \<and> (5250 :: real) \<le> CAMERA_FAR_CLIP"
proof -
  let ?g = "\<lparr>draws = \<lambda>n. 1 / 2 :: real, pos = 0\<rparr>"
  let ?s = "\<lparr>star_initial_size = 1, star_base_color = (255, 255, 255), star_x = 0, star_y = 0, star_z = 2, star_size = 1,
        star_trail_length = 0, star_trail_alpha = 255\<rparr>"
  have ok: "rng_ok ?g" by (simp add: rng_ok_def)
  have run: "map star_z (Star_run ?s ?g [(- 5, 0), (7000, 0), (- 10, 0)]) = [5250, 5250, 5240]"
    by (simp add: Star_update_def Star_reset_def uniform_def random_def Let_def lerp_def
        CAMERA_NEAR_CLIP_def CAMERA_FAR_CLIP_def WORLD_SIZE_def CAMERA_DEFAULT_Z_def)
  have "\<forall>z \<in> set (map star_z (Star_run ?s ?g [(- 5, 0), (7000, 0), (- 10, 0)])).
          CAMERA_NEAR_CLIP \<le> z \<and> z \<le> CAMERA_FAR_CLIP"
    using star_depth_invariant [OF ok, of ?s "[(- 5, 0), (7000, 0), (- 10, 0)]"] by simp
  then have "CAMERA_NEAR_CLIP \<le> 5240 \<and> (5250 :: real) \<le> CAMERA_FAR_CLIP"
    unfolding run by simp
  with ok run show ?thesis by simp
qed

text \<open>
  C8 (as amended). A star at depth \<open>CAMERA_NEAR_CLIP - 1\<close>, updated once with depth delta
  0 and warp factor 0, ends the call with its depth in
  \<open>[CAMERA_FAR_CLIP - WORLD_SIZE / 2, CAMERA_FAR_CLIP]\<close> in square6.py, and in
  \<open>[CAMERA_FAR_CLIP - 100 - WORLD_SIZE, CAMERA_FAR_CLIP - 100]\<close> in square5.py.
\<close>

theorem star_near_reset:
  assumes "rng_ok g" and "star_z s = CAMERA_NEAR_CLIP - 1"
  shows "CAMERA_FAR_CLIP - WORLD_SIZE / 2 \<le> star_z (fst (Star_update s 0 0 g)) \<and>
         star_z (fst (Star_update s 0 0 g)) \<le> CAMERA_FAR_CLIP \<and>
         CAMERA_FAR_CLIP_sq5 - 100 - WORLD_SIZE_sq5 \<le> star_z (fst (Star_update_sq5 s 0 0 g)) \<and>
         star_z (fst (Star_update_sq5 s 0 0 g)) \<le> CAMERA_FAR_CLIP_sq5 - 100"
proof -
  obtain s' g' where u: "Star_update s 0 0 g = (s', g')" by (cases "Star_update s 0 0 g")
  obtain t' h' where v: "Star_update_sq5 s 0 0 g = (t', h')" by (cases "Star_update_sq5 s 0 0 g")
  have below: "star_z s + 0 - 0 * 0 * 20 < CAMERA_NEAR_CLIP" "star_z s + 0 - 0 * 0 * 10 < CAMERA_NEAR_CLIP"
    using assms(2) by simp_all
  from Star_update_depth(3,4) [OF u assms(1)] below(1)
  have "CAMERA_FAR_CLIP - WORLD_SIZE / 2 \<le> star_z s'" "star_z s' \<le> CAMERA_FAR_CLIP"
    by blast+
  moreover from Star_update_sq5_depth(4) [OF v assms(1) below(2)]
  have "CAMERA_FAR_CLIP_sq5 - 100 - WORLD_SIZE_sq5 \<le> star_z t'" "star_z t' \<le> CAMERA_FAR_CLIP_sq5 - 100"
    by blast+
  ultimately show ?thesis by (simp add: u v)
qed

theorem star_near_reset_witness:
  "rng_ok \<lparr>draws = \<lambda>n. 3 / 4, pos = 0\<rparr> \<and>
   star_z (fst (Star_update
       \<lparr>star_initial_size = 1, star_base_color = (255, 255, 255), star_x = 0, star_y = 0, star_z = CAMERA_NEAR_CLIP - 1,
        star_size = 1, star_trail_length = 0, star_trail_alpha = 255\<rparr> 0 0
       \<lparr>draws = \<lambda>n. 3 / 4, pos = 0\<rparr>)) = 4875 \<and>
   CAMERA_FAR_CLIP - WORLD_SIZE / 2 \<le> 4875 \<and> (4875 :: real) \<le> CAMERA_FAR_CLIP"
proof -
  let ?g = "\<lparr>draws = \<lambda>n. 3 / 4 :: real, pos = 0\<rparr>"
  let ?s = "\<lparr>star_initial_size = 1, star_base_color = (255, 255, 255), star_x = 0, star_y = 0, star_z = CAMERA_NEAR_CLIP - 1,
        star_size = 1, star_trail_length = 0, star_trail_alpha = 255\<rparr>"
  have ok: "rng_ok ?g" by (simp add: rng_ok_def)
  have z: "star_z (fst (Star_update ?s 0 0 ?g)) = 4875"
    by (simp add: Star_update_def Star_reset_def uniform_def random_def Let_def lerp_def
        CAMERA_NEAR_CLIP_def CAMERA_FAR_CLIP_def WORLD_SIZE_def CAMERA_DEFAULT_Z_def)
  have "CAMERA_FAR_CLIP - WORLD_SIZE / 2 \<le> 4875 \<and> (4875 :: real) \<le> CAMERA_FAR_CLIP"
    using star_near_reset [OF ok, of ?s] unfolding z by simp
  with ok z show ?thesis by simp
qed

text \<open>In square5.py the same draw puts the star at 3400, below
  \<open>CAMERA_FAR_CLIP - WORLD_SIZE / 2 = 4000\<close>.\<close>

theorem star_near_reset_sq5_below:
  "rng_ok \<lparr>draws = \<lambda>n. 3 / 4, pos = 0\<rparr> \<and>
   star_z (fst (Star_update_sq5
       \<lparr>star_initial_size = 1, star_base_color = (255, 255, 255), star_x = 0, star_y = 0, star_z = CAMERA_NEAR_CLIP - 1,
        star_size = 1, star_trail_length = 0, star_trail_alpha = 255\<rparr> 0 0
       \<lparr>draws = \<lambda>n. 3 / 4, pos = 0\<rparr>)) = 3400 \<and>
   3400 < CAMERA_FAR_CLIP_sq5 - WORLD_SIZE_sq5 / 2"
  by (simp add: rng_ok_def Star_update_sq5_def uniform_def random_def Let_def lerp_def
      CAMERA_NEAR_CLIP_def CAMERA_FAR_CLIP_sq5_def WORLD_SIZE_sq5_def)

section \<open>The particle system\<close>

lemma emit_one_fields:
  "max_particles (fst (emit_one ps pp pr g)) = max_particles ps"
  "emission_rate (fst (emit_one ps pp pr g)) = emission_rate ps"
  "time_since_last_emission (fst (emit_one ps pp pr g)) = time_since_last_emission ps"
  by (simp_all add: emit_one_def Let_def split: prod.splits)

lemma emit_one_length:
  "length (particles (fst (emit_one ps pp pr g))) =
     (if length (particles ps) < max_particles ps
      then Suc (length (particles ps)) else length (particles ps))"
  by (simp add: emit_one_def Let_def split: prod.splits)

lemma emit_loop_fields:
  "max_particles (fst (emit_loop n ps pp pr g)) = max_particles ps \<and>
   emission_rate (fst (emit_loop n ps pp pr g)) = emission_rate ps \<and>
   time_since_last_emission (fst (emit_loop n ps pp pr g)) = time_since_last_emission ps"
proof (induction n arbitrary: ps g)
  case 0
  show ?case by simp
next
  case (Suc n)
  obtain ps' g' where e: "emit_one ps pp pr g = (ps', g')" by (cases "emit_one ps pp pr g")
  from emit_one_fields [of ps pp pr g] e Suc.IH [of ps' g'] show ?case by simp
qed

lemma emit_loop_length:
  "length (particles (fst (emit_loop n ps pp pr g))) =
     length (particles ps) + min n (max_particles ps - length (particles ps))"
proof (induction n arbitrary: ps g)
  case 0
  show ?case by simp
next
  case (Suc n)
  obtain ps' g' where e: "emit_one ps pp pr g = (ps', g')" by (cases "emit_one ps pp pr g")
  from emit_one_fields(1) [of ps pp pr g] emit_one_length [of ps pp pr g] e
  have m: "max_particles ps' = max_particles ps"
    and l: "length (particles ps') =
              (if length (particles ps) < max_particles ps
               then Suc (length (particles ps)) else length (particles ps))"
    by simp_all
  have ar: "Suc (min n (M - Suc L)) = min (Suc n) (M - L)" if "L < M" for L M :: nat
    using that by (simp add: min_def split: if_splits) arith
  from Suc.IH [of ps' g'] m l show ?case
    using ar [of "length (particles ps)" "max_particles ps"] by (simp add: e)
qed

lemma emit_points_bound:
  "length (particles ps) \<le> max_particles ps \<Longrightarrow>
     \<forall>s \<in> set (emit_points n ps pp pr g).
       length (particles s) \<le> max_particles ps \<and> max_particles s = max_particles ps"
proof (induction n arbitrary: ps g)
  case 0
  show ?case by simp
next
  case (Suc n)
  obtain ps' g' where e: "emit_one ps pp pr g = (ps', g')" by (cases "emit_one ps pp pr g")
  from emit_one_fields(1) [of ps pp pr g] emit_one_length [of ps pp pr g] e Suc.prems
  have m: "max_particles ps' = max_particles ps" and l: "length (particles ps') \<le> max_particles ps'"
    by (simp_all split: if_splits)
  from Suc.IH [OF l, of g'] m l show ?case
    by (simp add: e)
qed

text \<open>The trace lists the passes of the loop: its last entry is the state the loop ends
  in.\<close>

lemma emit_points_last:
  "last (ps # emit_points n ps pp pr g) = fst (emit_loop n ps pp pr g)"
proof (induction n arbitrary: ps g)
  case 0
  show ?case by simp
next
  case (Suc n)
  obtain ps' g' where e: "emit_one ps pp pr g = (ps', g')" by (cases "emit_one ps pp pr g")
  from Suc.IH [of ps' g'] show ?case by (simp add: e)
qed

lemma ParticleSystem_update_bound:
  assumes "ParticleSystem_update ps dt pp pr cdz g = Inr (ps', g')"
      and "length (particles ps) \<le> max_particles ps"
  shows "length (particles ps') \<le> max_particles ps \<and> max_particles ps' = max_particles ps"
proof -
  let ?ps1 = "ps\<lparr>time_since_last_emission := time_since_last_emission ps + dt\<rparr>"
  let ?n = "nat (py_int (time_since_last_emission ?ps1 * emission_rate ?ps1))"
  obtain ps2 g2 where l: "emit_loop ?n ?ps1 pp pr g = (ps2, g2)"
    by (cases "emit_loop ?n ?ps1 pp pr g")
  from emit_loop_length [of ?n ?ps1 pp pr g] emit_loop_fields [of ?n ?ps1 pp pr g] l assms(2)
  have b: "length (particles ps2) \<le> max_particles ps" and m: "max_particles ps2 = max_particles ps"
    by simp_all
  from assms(1) l have p: "particles ps' = filter (\<lambda>p. p_current_lifetime p > 0)
          (map (\<lambda>p. Particle_update p dt cdz) (particles ps2))"
    and m': "max_particles ps' = max_particles ps2"
    by (auto simp add: ParticleSystem_update_def Let_def py_truediv_def split: if_splits)
  have "length (particles ps') \<le> length (map (\<lambda>p. Particle_update p dt cdz) (particles ps2))"
    unfolding p by (rule length_filter_le)
  with b m m' show ?thesis by simp
qed

lemma ParticleSystem_update_points_bound:
  assumes "length (particles ps) \<le> max_particles ps"
  shows "\<forall>s \<in> set (ParticleSystem_update_points ps dt pp pr cdz g).
           length (particles s) \<le> max_particles ps \<and> max_particles s = max_particles ps"
proof -
  let ?ps1 = "ps\<lparr>time_since_last_emission := time_since_last_emission ps + dt\<rparr>"
  have a: "length (particles ?ps1) \<le> max_particles ?ps1" using assms by simp
  let ?n = "nat (py_int (time_since_last_emission ?ps1 * emission_rate ?ps1))"
  have e: "\<forall>s \<in> set (emit_points ?n ?ps1 pp pr g).
             length (particles s) \<le> max_particles ps \<and> max_particles s = max_particles ps"
    using emit_points_bound [OF a, of ?n pp pr g] by simp
  have u: "length (particles ps') \<le> max_particles ps \<and> max_particles ps' = max_particles ps"
    if "ParticleSystem_update ps dt pp pr cdz g = Inr (ps', g')" for ps' g'
    using ParticleSystem_update_bound [OF that assms] .
  show ?thesis
  proof (cases "ParticleSystem_update ps dt pp pr cdz g")
    case (Inl err)
    with e assms show ?thesis
      by (simp add: ParticleSystem_update_points_def Let_def)
  next
    case (Inr r)
    obtain ps' g' where r: "r = (ps', g')" by (cases r)
    from u [OF Inr [unfolded r]] e assms show ?thesis
      by (simp add: ParticleSystem_update_points_def Let_def Inr r)
  qed
qed

lemma ParticleSystem_run_points_bound:
  "length (particles ps) \<le> max_particles ps \<Longrightarrow>
     \<forall>s \<in> set (ParticleSystem_run_points ps g calls).
       length (particles s) \<le> max_particles ps \<and> max_particles s = max_particles ps"
proof (induction calls arbitrary: ps g)
  case Nil
  show ?case by simp
next
  case (Cons c calls)
  obtain dt pp pr cdz where c: "c = (dt, pp, pr, cdz)" by (cases c)
  note here = ParticleSystem_update_points_bound [OF Cons.prems, of dt pp pr cdz g]
  show ?case
  proof (cases "ParticleSystem_update ps dt pp pr cdz g")
    case (Inl e)
    with here show ?thesis by (simp add: c)
  next
    case (Inr r)
    obtain ps' g' where r: "r = (ps', g')" by (cases r)
    from ParticleSystem_update_bound [OF Inr [unfolded r] Cons.prems]
    have b: "length (particles ps') \<le> max_particles ps'" and m: "max_particles ps' = max_particles ps"
      by simp_all
    from Cons.IH [OF b, of g'] m here show ?thesis
      by (auto simp add: c Inr r)
  qed
qed

text \<open>The states at the end of the calls are among the points of the run.\<close>

lemma ParticleSystem_run_subset:
  "set (ParticleSystem_run ps g calls) \<subseteq> set (ParticleSystem_run_points ps g calls)"
proof (induction calls arbitrary: ps g)
  case Nil
  show ?case by simp
next
  case (Cons c calls)
  obtain dt pp pr cdz where c: "c = (dt, pp, pr, cdz)" by (cases c)
  show ?case
  proof (cases "ParticleSystem_update ps dt pp pr cdz g")
    case (Inl e)
    then show ?thesis by (simp add: c)
  next
    case (Inr r)
    obtain ps' g' where r: "r = (ps', g')" by (cases r)
    from Cons.IH [of ps' g'] show ?thesis
      by (auto simp add: c Inr r ParticleSystem_update_points_def Let_def)
  qed
qed

text \<open>
  C7. From its construction on, through any sequence of \<^verbatim>\<open>update\<close> calls (any \<open>dt\<close>, any
  emission rate, any parent position and rotation), a particle system never holds more
  than \<^verbatim>\<open>max_particles\<close> particles: not after the accumulator is advanced, not after any
  pass of the emission loop, and not at the end of a call.
\<close>

theorem particle_cap:
  "(\<forall>s \<in> set (ParticleSystem_run_points
               (ParticleSystem_init src maxp color sizes velocities lifetimes rate) g calls).
      length (particles s) \<le> maxp \<and> max_particles s = maxp) \<and>
   (\<forall>s \<in> set (ParticleSystem_run
               (ParticleSystem_init src maxp color sizes velocities lifetimes rate) g calls).
      length (particles s) \<le> maxp \<and> max_particles s = maxp)"
proof -
  let ?ps = "ParticleSystem_init src maxp color sizes velocities lifetimes rate"
  have i: "length (particles ?ps) \<le> max_particles ?ps" and m: "max_particles ?ps = maxp"
    by (simp_all add: ParticleSystem_init_def)
  from ParticleSystem_run_points_bound [OF i, of g calls] m
  have a: "\<forall>s \<in> set (ParticleSystem_run_points ?ps g calls).
             length (particles s) \<le> maxp \<and> max_particles s = maxp"
    by simp
  with ParticleSystem_run_subset [of ?ps g calls] show ?thesis by blast
qed

lemma particle_run_example:
  "map (\<lambda>s. length (particles s))
     (ParticleSystem_run_points
        (ParticleSystem_init (0, 0, 0) 1 (255, 120, 0) (1, 4) (- 10, 10, - 10, 10, 50, 100) (1, 2) 1)
        \<lparr>draws = \<lambda>n. 1 / 2, pos = 0\<rparr> [(5 / 2, (0, 0, 0), (0, 0, 0), 0)]) = [0, 1, 1, 0]"
  by (simp add: ParticleSystem_update_points_def ParticleSystem_update_def ParticleSystem_init_def
      Let_def py_int_def py_truediv_def eval_nat_numeral emit_one_def rotate_point_3d_def
      uniform_def random_def Particle_init_def Particle_update_def)

theorem particle_cap_witness:
  "map (\<lambda>s. length (particles s))
     (ParticleSystem_run_points
        (ParticleSystem_init (0, 0, 0) 1 (255, 120, 0) (1, 4) (- 10, 10, - 10, 10, 50, 100) (1, 2) 1)
        \<lparr>draws = \<lambda>n. 1 / 2, pos = 0\<rparr> [(5 / 2, (0, 0, 0), (0, 0, 0), 0)]) = [0, 1, 1, 0] \<and>
   (0 :: nat) \<le> 1 \<and> (1 :: nat) \<le> 1"
proof -
  let ?run = "ParticleSystem_run_points
        (ParticleSystem_init (0, 0, 0) 1 (255, 120, 0) (1, 4) (- 10, 10, - 10, 10, 50, 100) (1, 2) 1)
        \<lparr>draws = \<lambda>n. 1 / 2, pos = 0\<rparr> [(5 / 2, (0, 0, 0), (0, 0, 0), 0)]"
  have "\<forall>n \<in> set (map (\<lambda>s. length (particles s)) ?run). n \<le> 1"
    using particle_cap [of "(0, 0, 0)" 1 "(255, 120, 0)" "(1, 4)" "(- 10, 10, - 10, 10, 50, 100)"
        "(1, 2)" 1 "\<lparr>draws = \<lambda>n. 1 / 2, pos = 0\<rparr>" "[(5 / 2, (0, 0, 0), (0, 0, 0), 0)]"]
    by simp
  then have b: "(0 :: nat) \<le> 1 \<and> (1 :: nat) \<le> 1"
    unfolding particle_run_example by simp
  from particle_run_example b show ?thesis by (rule conjI)
qed

section \<open>Sorting and drawing\<close>

lemma sort_reverse_sorted: "sorted_wrt (\<ge>) (map fst (sort_reverse polys))"
proof -
  have "sorted (map fst (sort_key fst (rev polys)))" by (rule sorted_sort_key)
  then have "sorted_wrt (\<lambda>a b. b \<le> a) (rev (map fst (sort_key fst (rev polys))))"
    by (simp add: sorted_wrt_rev)
  then show ?thesis by (simp add: sort_reverse_def rev_map)
qed

lemma distinct_map_sort_key: "distinct (map f (sort_key f xs)) = distinct (map f xs)"
  by (induction xs) (simp_all add: distinct_insort_key)

lemma sort_reverse_strict:
  assumes "distinct (map fst polys)"
  shows "sorted_wrt (>) (map fst (sort_reverse polys))"
proof -
  have d: "distinct (map fst (sort_key fst (rev polys)))"
    using assms by (simp add: distinct_map_sort_key rev_map [symmetric] del: rev_map)
  have "sorted (map fst (sort_key fst (rev polys)))" by (rule sorted_sort_key)
  with d have "sorted_wrt (<) (map fst (sort_key fst (rev polys)))"
    by (simp add: strict_sorted_iff)
  then have "sorted_wrt (\<lambda>a b. b < a) (rev (map fst (sort_key fst (rev polys))))"
    by (simp add: sorted_wrt_rev)
  then show ?thesis by (simp add: sort_reverse_def rev_map)
qed

lemma sort_reverse_set: "set (sort_reverse polys) = set polys"
  by (simp add: sort_reverse_def)

lemma sort_reverse_length: "length (sort_reverse polys) = length polys"
  by (simp add: sort_reverse_def)

text \<open>Ties keep the order of collection.\<close>

lemma sort_reverse_stable:
  "filter (\<lambda>p. fst p = k) (sort_reverse polys) = filter (\<lambda>p. fst p = k) polys"
proof -
  have "filter (\<lambda>p. fst p = k) (sort_key fst (rev polys)) = filter (\<lambda>p. fst p = k) (rev polys)"
    by (rule sort_key_stable)
  then show ?thesis by (simp add: sort_reverse_def rev_filter [symmetric])
qed

lemma draw_polygons_keys:
  "map fst (draw_polygons polys) = map fst (filter (\<lambda>p. draw_polygon p \<noteq> None) polys)"
  by (induction polys) (auto simp add: draw_polygons_def List.map_filter_simps)

lemma draw_polygons_sorted:
  assumes "sorted_wrt R (map fst polys)"
  shows "sorted_wrt R (map fst (draw_polygons polys))"
proof -
  from assms have "sorted_wrt (\<lambda>p q. R (fst p) (fst q)) polys"
    by (simp add: sorted_wrt_map)
  then have "sorted_wrt (\<lambda>p q. R (fst p) (fst q)) (filter (\<lambda>p. draw_polygon p \<noteq> None) polys)"
    by (rule sorted_wrt_filter)
  then show ?thesis by (simp add: draw_polygons_keys sorted_wrt_map)
qed

text \<open>A polygon of three or more points is always drawn: the surface is at least 2 by 2.\<close>

lemma fold_min_le: "fold min xs (a :: real) \<le> a"
proof (induction xs arbitrary: a)
  case Nil
  show ?case by simp
next
  case (Cons x xs)
  have "fold min xs (min x a) \<le> min x a" by (rule Cons.IH)
  also have "min x a \<le> a" by simp
  finally show ?case by simp
qed

lemma fold_max_ge: "(a :: real) \<le> fold max xs a"
proof (induction xs arbitrary: a)
  case Nil
  show ?case by simp
next
  case (Cons x xs)
  have "a \<le> max x a" by simp
  also have "max x a \<le> fold max xs (max x a)" by (rule Cons.IH)
  finally show ?case by simp
qed

lemma fold_min_le_fold_max: "fold min xs (a :: real) \<le> fold max xs a"
  using fold_min_le [of xs a] fold_max_ge [of a xs] by simp

lemma draw_polygon_drawn:
  "draw_polygon (k, c, pts) \<noteq> None \<longleftrightarrow> 3 \<le> length pts"
proof (cases pts)
  case Nil
  then show ?thesis by (simp add: draw_polygon_def)
next
  case (Cons p ps)
  have "0 \<le> py_int (fold max (map fst ps) (fst p) - fold min (map fst ps) (fst p))"
    "0 \<le> py_int (fold max (map snd ps) (snd p) - fold min (map snd ps) (snd p))"
    using fold_min_le_fold_max [of "map fst ps" "fst p"] fold_min_le_fold_max [of "map snd ps" "snd p"]
    by (simp_all add: py_int_def)
  then show ?thesis
    by (simp add: draw_polygon_def Cons Let_def)
qed

section \<open>The collected polygons\<close>

lemma sequence_err_Inr:
  "(\<forall>x \<in> set xs. g x = Inr (f x)) \<Longrightarrow> sequence_err (map g xs) = Inr (map f xs)"
  by (induction xs) simp_all

lemma py_index_all:
  "(\<forall>v \<in> set face. v < length xs) \<Longrightarrow>
     sequence_err (map (py_index xs) face) = Inr (map (\<lambda>v. xs ! v) face)"
  by (rule sequence_err_Inr) (simp add: py_index_def)

lemma those_map:
  "those (map f xs) =
     (if list_all (\<lambda>x. f x \<noteq> None) xs then Some (map (\<lambda>x. the (f x)) xs) else None)"
  by (induction xs) (auto split: option.splits)

lemma map_filter_id_map: "List.map_filter (\<lambda>r. r) (map f xs) = List.map_filter f xs"
  by (induction xs) (simp_all add: List.map_filter_simps split: option.splits)

lemma enumerate_member: "(i, x) \<in> set (enumerate n xs) \<Longrightarrow> x \<in> set xs"
  by (auto simp add: in_set_enumerate_eq)

lemma project_point_spec:
  "project_point v cx cy cz (real_of_int (WIDTH div 2)) (real_of_int (HEIGHT div 2)) CAMERA_DEFAULT_Z
     = Inr (spec_projection CAMERA_FAR_CLIP v cx cy cz)"
  by (cases v) (auto simp add: project_point_eq spec_projection_def vertex_visible_def screen_xy_def)

lemma project_point_sq5_spec:
  "project_point_sq5 v cx cy cz (real_of_int (WIDTH div 2)) (real_of_int (HEIGHT div 2)) CAMERA_DEFAULT_Z
     = Inr (map_option (\<lambda>(a, b, c, d). (a, b, c)) (spec_projection CAMERA_FAR_CLIP_sq5 v cx cy cz))"
  by (cases v) (auto simp add: project_point_sq5_eq spec_projection_def vertex_visible_def screen_xy_def)

lemma project_vertices_spec:
  "project_vertices tv cx cy cz = Inr (map (\<lambda>v. spec_projection CAMERA_FAR_CLIP v cx cy cz) tv)"
  unfolding project_vertices_def by (rule sequence_err_Inr) (simp add: project_point_spec)

lemma project_vertices_sq5_spec:
  "project_vertices_sq5 tv cx cy cz =
     Inr (map (\<lambda>v. map_option (\<lambda>(a, b, c, d). (a, b, c))
                      (spec_projection CAMERA_FAR_CLIP_sq5 v cx cy cz)) tv)"
  unfolding project_vertices_sq5_def by (rule sequence_err_Inr) (simp add: project_point_sq5_spec)

lemma transform_vertices_length: "length (transform_vertices obj) = length (obj_vertices obj)"
  by (simp add: transform_vertices_def)

lemma transform_vertices_sq5_eq: "transform_vertices_sq5 obj = transform_vertices obj"
  by (simp add: transform_vertices_sq5_def transform_vertices_def rotate_point_3d_sq5_eq)

lemma face_polygon_spec:
  assumes "face \<noteq> []" and "\<forall>v \<in> set face. v < length tv"
  shows "face_polygon obj tv (map (\<lambda>v. spec_projection CAMERA_FAR_CLIP v cx cy cz) tv) i face =
           Inr (if list_all (\<lambda>v. vertex_visible CAMERA_FAR_CLIP (tv ! v) cz) face
                then Some (face_view_depth tv cz face, obj_get_face_color obj i tv,
                           map (\<lambda>v. screen_xy (tv ! v) cx cy cz) face)
                else None)"
proof -
  let ?pvd = "map (\<lambda>v. spec_projection CAMERA_FAR_CLIP v cx cy cz) tv"
  let ?f = "\<lambda>v. spec_projection CAMERA_FAR_CLIP (tv ! v) cx cy cz"
  have idx: "sequence_err (map (py_index ?pvd) face) = Inr (map ?f face)"
  proof -
    have "sequence_err (map (py_index ?pvd) face) = Inr (map (\<lambda>v. ?pvd ! v) face)"
      using assms(2) by (intro py_index_all) simp
    also have "map (\<lambda>v. ?pvd ! v) face = map ?f face"
      using assms(2) by simp
    finally show ?thesis .
  qed
  have vis: "list_all (\<lambda>v. ?f v \<noteq> None) face =
             list_all (\<lambda>v. vertex_visible CAMERA_FAR_CLIP (tv ! v) cz) face"
    by (simp add: spec_projection_def)
  have len: "real (length face) \<noteq> 0" using assms(1) by simp
  show ?thesis
  proof (cases "list_all (\<lambda>v. vertex_visible CAMERA_FAR_CLIP (tv ! v) cz) face")
    case False
    with vis have "those (map ?f face) = None" by (simp add: those_map)
    with False idx show ?thesis by (simp add: face_polygon_def)
  next
    case True
    then have all: "\<forall>v \<in> set face. vertex_visible CAMERA_FAR_CLIP (tv ! v) cz"
      by (simp add: list_all_iff)
    from True vis have th: "those (map ?f face) = Some (map (\<lambda>v. the (?f v)) face)"
      by (simp add: those_map)
    have depth: "map (\<lambda>(a, b, c, d). d) (map (\<lambda>v. the (?f v)) face) =
                 map (\<lambda>v. snd (snd (tv ! v)) - cz) face"
      using all by (simp add: spec_projection_def)
    have pts: "map (\<lambda>(a, b, c, d). (a, b)) (map (\<lambda>v. the (?f v)) face) =
               map (\<lambda>v. screen_xy (tv ! v) cx cy cz) face"
      using all by (simp add: spec_projection_def)
    from True idx th len show ?thesis
      by (simp add: face_polygon_def py_truediv_def depth pts face_view_depth_def
          del: map_map)
  qed
qed

lemma object_polygons_spec:
  assumes "mesh_ok obj"
  shows "object_polygons obj cx cy cz =
           Inr (List.map_filter (\<lambda>(i, face). spec_face_polygon CAMERA_FAR_CLIP obj cx cy cz i face)
                  (enumerate 0 (obj_faces obj)))"
proof -
  let ?tv = "transform_vertices obj"
  let ?pvd = "map (\<lambda>v. spec_projection CAMERA_FAR_CLIP v cx cy cz) ?tv"
  have each: "\<forall>e \<in> set (enumerate 0 (obj_faces obj)).
                (\<lambda>(i, face). face_polygon obj ?tv ?pvd i face) e =
                Inr ((\<lambda>(i, face). spec_face_polygon CAMERA_FAR_CLIP obj cx cy cz i face) e)"
  proof
    fix e assume e: "e \<in> set (enumerate 0 (obj_faces obj))"
    obtain i face where ie: "e = (i, face)" by (cases e)
    with e have "face \<in> set (obj_faces obj)" by (auto dest: enumerate_member)
    with assms have ne: "face \<noteq> []" and ix: "\<forall>v \<in> set face. v < length ?tv"
      by (auto simp add: mesh_ok_def list_all_iff transform_vertices_length)
    from face_polygon_spec [OF ne ix, of obj cx cy cz i] show
      "(\<lambda>(i, face). face_polygon obj ?tv ?pvd i face) e =
       Inr ((\<lambda>(i, face). spec_face_polygon CAMERA_FAR_CLIP obj cx cy cz i face) e)"
      by (simp add: ie spec_face_polygon_def Let_def)
  qed
  from sequence_err_Inr [OF each] show ?thesis
    by (simp add: object_polygons_def Let_def project_vertices_spec map_filter_id_map)
qed

lemma collect_polygons_spec:
  assumes "list_all mesh_ok objs"
  shows "collect_polygons objs cx cy cz = Inr (spec_polygons CAMERA_FAR_CLIP objs cx cy cz)"
proof -
  have "\<forall>obj \<in> set objs. object_polygons obj cx cy cz =
          Inr (List.map_filter (\<lambda>(i, face). spec_face_polygon CAMERA_FAR_CLIP obj cx cy cz i face)
                 (enumerate 0 (obj_faces obj)))"
    using assms by (auto simp add: list_all_iff intro: object_polygons_spec)
  from sequence_err_Inr [OF this] show ?thesis
    by (simp add: collect_polygons_def spec_polygons_def)
qed

lemma map_filter_map_option:
  "List.map_filter (\<lambda>x. map_option g (f x)) xs = map g (List.map_filter f xs)"
  by (induction xs) (simp_all add: List.map_filter_simps split: option.splits)

lemma all_projected_sq5_spec:
  "(\<forall>v \<in> set face. v < length pv) \<Longrightarrow>
     all_projected_sq5 pv face = Inr (list_all (\<lambda>v. pv ! v \<noteq> None) face)"
  by (induction face) (auto simp add: py_index_def split: option.splits)

lemma face_world_depth:
  assumes "face \<noteq> []"
  shows "sum_list (map (\<lambda>v. snd (snd (tv ! v))) face) / real (length face) =
           face_view_depth tv cz face + cz"
proof -
  have "sum_list (map (\<lambda>v. snd (snd (tv ! v)) - cz) face) =
          sum_list (map (\<lambda>v. snd (snd (tv ! v))) face) - real (length face) * cz"
    by (simp add: sum_list_subtractf sum_list_triv)
  with assms show ?thesis
    by (simp add: face_view_depth_def field_simps)
qed

lemma face_polygon_sq5_spec:
  assumes "face \<noteq> []" and "\<forall>v \<in> set face. v < length tv"
  shows "face_polygon_sq5 obj tv
           (map (\<lambda>v. map_option (\<lambda>(a, b, c, d). (a, b, c))
                        (spec_projection CAMERA_FAR_CLIP_sq5 v cx cy cz)) tv) i face =
           Inr (if list_all (\<lambda>v. vertex_visible CAMERA_FAR_CLIP_sq5 (tv ! v) cz) face
                then Some (face_view_depth tv cz face + cz, obj_get_face_color obj i tv,
                           map (\<lambda>v. screen_xy (tv ! v) cx cy cz) face)
                else None)"
proof -
  let ?pv = "map (\<lambda>v. map_option (\<lambda>(a, b, c, d). (a, b, c))
                        (spec_projection CAMERA_FAR_CLIP_sq5 v cx cy cz)) tv"
  let ?f = "\<lambda>v. map_option (\<lambda>(a, b, c, d). (a, b, c))
                   (spec_projection CAMERA_FAR_CLIP_sq5 (tv ! v) cx cy cz)"
  have ix: "\<forall>v \<in> set face. v < length ?pv" using assms(2) by simp
  have nth: "map (\<lambda>v. ?pv ! v) face = map ?f face" using assms(2) by simp
  have vis: "list_all (\<lambda>v. ?pv ! v \<noteq> None) face =
             list_all (\<lambda>v. vertex_visible CAMERA_FAR_CLIP_sq5 (tv ! v) cz) face"
    using assms(2) by (auto simp add: list_all_iff spec_projection_def)
  have allp: "all_projected_sq5 ?pv face =
                Inr (list_all (\<lambda>v. vertex_visible CAMERA_FAR_CLIP_sq5 (tv ! v) cz) face)"
    using all_projected_sq5_spec [OF ix] vis by simp
  have idx: "sequence_err (map (py_index ?pv) face) = Inr (map ?f face)"
    using py_index_all [OF ix] nth by simp
  have world: "sequence_err (map (py_index tv) face) = Inr (map (\<lambda>v. tv ! v) face)"
    using assms(2) by (rule py_index_all)
  have key: "sum_list (map (\<lambda>(a, b, c). c) (map (\<lambda>v. tv ! v) face)) / real (length face) =
               face_view_depth tv cz face + cz"
  proof -
    have "map (\<lambda>(a, b, c). c) (map (\<lambda>v. tv ! v) face) = map (\<lambda>v. snd (snd (tv ! v))) face"
      by (simp add: case_prod_beta)
    then show ?thesis by (simp only: face_world_depth [OF assms(1)])
  qed
  have len: "real (length face) \<noteq> 0" using assms(1) by simp
  show ?thesis
  proof (cases "list_all (\<lambda>v. vertex_visible CAMERA_FAR_CLIP_sq5 (tv ! v) cz) face")
    case False
    with allp show ?thesis by (simp add: face_polygon_sq5_def)
  next
    case True
    then have all: "\<forall>v \<in> set face. vertex_visible CAMERA_FAR_CLIP_sq5 (tv ! v) cz"
      by (simp add: list_all_iff)
    then have "list_all (\<lambda>v. ?f v \<noteq> None) face"
      by (simp add: list_all_iff spec_projection_def)
    then have th: "those (map ?f face) = Some (map (\<lambda>v. the (?f v)) face)"
      by (simp add: those_map)
    have pts: "map (\<lambda>(a, b, c). (a, b)) (map (\<lambda>v. the (?f v)) face) =
               map (\<lambda>v. screen_xy (tv ! v) cx cy cz) face"
      using all by (simp add: spec_projection_def)
    from True allp world idx th len key show ?thesis
      by (simp add: face_polygon_sq5_def py_truediv_def pts del: map_map)
  qed
qed

lemma object_polygons_sq5_spec:
  assumes "mesh_ok obj"
  shows "object_polygons_sq5 obj cx cy cz =
           Inr (map (shift_key cz)
                  (List.map_filter (\<lambda>(i, face). spec_face_polygon CAMERA_FAR_CLIP_sq5 obj cx cy cz i face)
                     (enumerate 0 (obj_faces obj))))"
proof -
  let ?tv = "transform_vertices obj"
  let ?pv = "map (\<lambda>v. map_option (\<lambda>(a, b, c, d). (a, b, c))
                        (spec_projection CAMERA_FAR_CLIP_sq5 v cx cy cz)) ?tv"
  let ?spec = "\<lambda>e. map_option (shift_key cz)
                  ((\<lambda>(i, face). spec_face_polygon CAMERA_FAR_CLIP_sq5 obj cx cy cz i face) e)"
  have each: "\<forall>e \<in> set (enumerate 0 (obj_faces obj)).
                (\<lambda>(i, face). face_polygon_sq5 obj ?tv ?pv i face) e = Inr (?spec e)"
  proof
    fix e assume e: "e \<in> set (enumerate 0 (obj_faces obj))"
    obtain i face where ie: "e = (i, face)" by (cases e)
    with e have "face \<in> set (obj_faces obj)" by (auto dest: enumerate_member)
    with assms have ne: "face \<noteq> []" and ix: "\<forall>v \<in> set face. v < length ?tv"
      by (auto simp add: mesh_ok_def list_all_iff transform_vertices_length)
    from face_polygon_sq5_spec [OF ne ix, of obj cx cy cz i] show
      "(\<lambda>(i, face). face_polygon_sq5 obj ?tv ?pv i face) e = Inr (?spec e)"
      by (simp add: ie spec_face_polygon_def Let_def shift_key_def)
  qed
  have shift: "List.map_filter ?spec xs =
                 map (shift_key cz)
                   (List.map_filter (\<lambda>(i, face). spec_face_polygon CAMERA_FAR_CLIP_sq5 obj cx cy cz i face) xs)"
    for xs
    by (rule map_filter_map_option)
  from sequence_err_Inr [OF each] show ?thesis
    by (simp add: object_polygons_sq5_def Let_def project_vertices_sq5_spec map_filter_id_map
        transform_vertices_sq5_eq shift)
qed

lemma collect_polygons_sq5_spec:
  assumes "list_all mesh_ok objs"
  shows "collect_polygons_sq5 objs cx cy cz =
           Inr (map (shift_key cz) (spec_polygons CAMERA_FAR_CLIP_sq5 objs cx cy cz))"
proof -
  have "\<forall>obj \<in> set objs. object_polygons_sq5 obj cx cy cz =
          Inr (map (shift_key cz)
                 (List.map_filter (\<lambda>(i, face). spec_face_polygon CAMERA_FAR_CLIP_sq5 obj cx cy cz i face)
                    (enumerate 0 (obj_faces obj))))"
    using assms by (auto simp add: list_all_iff intro: object_polygons_sq5_spec)
  from sequence_err_Inr [OF this] show ?thesis
    by (simp add: collect_polygons_sq5_def spec_polygons_def map_concat comp_def)
qed

section \<open>The order of drawing\<close>

lemma shift_key_keys: "map (\<lambda>p. fst p - c) (map (shift_key c) polys) = map fst polys"
  by (simp add: shift_key_def comp_def)

lemma shift_key_distinct:
  "distinct (map fst (map (shift_key c) polys)) = distinct (map fst polys)"
proof -
  have "map fst (map (shift_key c) polys) = map (\<lambda>k. k + c) (map fst polys)"
    by (simp add: shift_key_def comp_def)
  then show ?thesis by (simp add: distinct_map inj_on_def del: map_map)
qed

lemma sorted_wrt_minus:
  fixes c :: real
  shows "sorted_wrt (\<ge>) (map fst ds) \<Longrightarrow> sorted_wrt (\<ge>) (map (\<lambda>d. fst d - c) ds)"
    and "sorted_wrt (>) (map fst ds) \<Longrightarrow> sorted_wrt (>) (map (\<lambda>d. fst d - c) ds)"
  by (simp_all add: sorted_wrt_map)

text \<open>
  C2 (as amended). For meshes whose faces are non-empty tuples of valid vertex indices,
  the loop collects, over all meshes, one polygon per face that has no clipped vertex,
  and the drawing loop blits them in descending order of the average camera-space depth
  of the face (strictly descending when the keys of the collected polygons are
  distinct). In square6.py the key stored with a polygon is that average of
  \<open>world z - camera z\<close>; in square5.py the key stored is the average of the raw
  transformed \<open>z\<close>, which is the same average plus \<open>camera_z\<close>, so that the order of
  drawing is the same.
\<close>

theorem mesh_depth_order:
  assumes "list_all mesh_ok objs"
  shows "collect_polygons objs cx cy cz = Inr (spec_polygons CAMERA_FAR_CLIP objs cx cy cz) \<and>
         render_meshes objs cx cy cz =
           Inr (draw_polygons (sort_reverse (spec_polygons CAMERA_FAR_CLIP objs cx cy cz))) \<and>
         sorted_wrt (\<ge>)
           (map fst (draw_polygons (sort_reverse (spec_polygons CAMERA_FAR_CLIP objs cx cy cz)))) \<and>
         (distinct (map fst (spec_polygons CAMERA_FAR_CLIP objs cx cy cz)) \<longrightarrow>
            sorted_wrt (>)
              (map fst (draw_polygons (sort_reverse (spec_polygons CAMERA_FAR_CLIP objs cx cy cz))))) \<and>
         collect_polygons_sq5 objs cx cy cz =
           Inr (map (shift_key cz) (spec_polygons CAMERA_FAR_CLIP_sq5 objs cx cy cz)) \<and>
         render_meshes_sq5 objs cx cy cz =
           Inr (draw_polygons (sort_reverse
                  (map (shift_key cz) (spec_polygons CAMERA_FAR_CLIP_sq5 objs cx cy cz)))) \<and>
         sorted_wrt (\<ge>)
           (map (\<lambda>d. fst d - cz)
              (draw_polygons (sort_reverse
                 (map (shift_key cz) (spec_polygons CAMERA_FAR_CLIP_sq5 objs cx cy cz))))) \<and>
         (distinct (map fst (spec_polygons CAMERA_FAR_CLIP_sq5 objs cx cy cz)) \<longrightarrow>
            sorted_wrt (>)
              (map (\<lambda>d. fst d - cz)
                 (draw_polygons (sort_reverse
                    (map (shift_key cz) (spec_polygons CAMERA_FAR_CLIP_sq5 objs cx cy cz))))))"
proof -
  let ?p6 = "spec_polygons CAMERA_FAR_CLIP objs cx cy cz"
  let ?p5 = "map (shift_key cz) (spec_polygons CAMERA_FAR_CLIP_sq5 objs cx cy cz)"
  note c6 = collect_polygons_spec [OF assms, of cx cy cz]
  note c5 = collect_polygons_sq5_spec [OF assms, of cx cy cz]
  have r6: "render_meshes objs cx cy cz = Inr (draw_polygons (sort_reverse ?p6))"
    by (simp add: render_meshes_def c6)
  have r5: "render_meshes_sq5 objs cx cy cz = Inr (draw_polygons (sort_reverse ?p5))"
    by (simp add: render_meshes_sq5_def c5)
  have s6: "sorted_wrt (\<ge>) (map fst (draw_polygons (sort_reverse ?p6)))"
    by (rule draw_polygons_sorted) (rule sort_reverse_sorted)
  have t6: "sorted_wrt (>) (map fst (draw_polygons (sort_reverse ?p6)))"
    if "distinct (map fst ?p6)"
    by (rule draw_polygons_sorted) (rule sort_reverse_strict [OF that])
  have s5: "sorted_wrt (\<ge>) (map (\<lambda>d. fst d - cz) (draw_polygons (sort_reverse ?p5)))"
    by (rule sorted_wrt_minus(1)) (rule draw_polygons_sorted, rule sort_reverse_sorted)
  have t5: "sorted_wrt (>) (map (\<lambda>d. fst d - cz) (draw_polygons (sort_reverse ?p5)))"
    if d: "distinct (map fst (spec_polygons CAMERA_FAR_CLIP_sq5 objs cx cy cz))"
  proof -
    from d have "distinct (map fst ?p5)" by (simp only: shift_key_distinct)
    then have "sorted_wrt (>) (map fst (sort_reverse ?p5))" by (rule sort_reverse_strict)
    then have "sorted_wrt (>) (map fst (draw_polygons (sort_reverse ?p5)))"
      by (rule draw_polygons_sorted)
    then show ?thesis by (rule sorted_wrt_minus(2))
  qed
  from c6 r6 s6 t6 c5 r5 s5 t5 show ?thesis by (intro conjI impI)
qed

text \<open>A triangle at world depth 500 seen from a camera at depth 100: square5.py keys it
  500, its depth in camera space is 400.\<close>

theorem mesh_key_sq5_world_z:
  "collect_polygons_sq5
     [\<lparr>obj_vertices = [(0, 0, 0), (1, 0, 0), (0, 1, 0)], obj_faces = [[0, 1, 2]],
       obj_x = 0, obj_y = 0, obj_z = 500, obj_scale = 100,
       obj_angle_x = 0, obj_angle_y = 0, obj_angle_z = 0,
       obj_get_face_color = \<lambda>i tv. (255, 0, 0)\<rparr>] 0 0 100
     = Inr [(500, (255, 0, 0), [(600, 400), (675, 400), (600, 475)])] \<and>
   face_view_depth
     (transform_vertices_sq5
        \<lparr>obj_vertices = [(0, 0, 0), (1, 0, 0), (0, 1, 0)], obj_faces = [[0, 1, 2]],
         obj_x = 0, obj_y = 0, obj_z = 500, obj_scale = 100,
         obj_angle_x = 0, obj_angle_y = 0, obj_angle_z = 0,
         obj_get_face_color = \<lambda>i tv. (255, 0, 0)\<rparr>) 100 [0, 1, 2] = 400"
  by (simp add: collect_polygons_sq5_def object_polygons_sq5_def face_polygon_sq5_def
      project_vertices_sq5_def transform_vertices_sq5_def rotate_point_3d_sq5_def
      project_point_sq5_eq py_index_def py_truediv_def face_view_depth_def enumerate_eq_zip
      List.map_filter_simps Let_def CAMERA_NEAR_CLIP_def CAMERA_FAR_CLIP_sq5_def
      CAMERA_DEFAULT_Z_def WIDTH_def HEIGHT_def)

theorem mesh_depth_order_witness:
  "list_all mesh_ok
      [\<lparr>obj_vertices = [(0, 0, 0), (1, 0, 0), (0, 1, 0)], obj_faces = [[0, 1, 2]],
        obj_x = 0, obj_y = 0, obj_z = 500, obj_scale = 100,
        obj_angle_x = 0, obj_angle_y = 0, obj_angle_z = 0,
        obj_get_face_color = \<lambda>i tv. (255, 0, 0)\<rparr>,
       \<lparr>obj_vertices = [(0, 0, 0), (1, 0, 0), (0, 1, 0)], obj_faces = [[0, 1, 2]],
        obj_x = 0, obj_y = 0, obj_z = 800, obj_scale = 100,
        obj_angle_x = 0, obj_angle_y = 0, obj_angle_z = 0,
        obj_get_face_color = \<lambda>i tv. (255, 0, 0)\<rparr>] \<and>
   map fst (spec_polygons CAMERA_FAR_CLIP
      [\<lparr>obj_vertices = [(0, 0, 0), (1, 0, 0), (0, 1, 0)], obj_faces = [[0, 1, 2]],
        obj_x = 0, obj_y = 0, obj_z = 500, obj_scale = 100,
        obj_angle_x = 0, obj_angle_y = 0, obj_angle_z = 0,
        obj_get_face_color = \<lambda>i tv. (255, 0, 0)\<rparr>,
       \<lparr>obj_vertices = [(0, 0, 0), (1, 0, 0), (0, 1, 0)], obj_faces = [[0, 1, 2]],
        obj_x = 0, obj_y = 0, obj_z = 800, obj_scale = 100,
        obj_angle_x = 0, obj_angle_y = 0, obj_angle_z = 0,
        obj_get_face_color = \<lambda>i tv. (255, 0, 0)\<rparr>] 0 0 100) = [400, 700] \<and>
   render_meshes
      [\<lparr>obj_vertices = [(0, 0, 0), (1, 0, 0), (0, 1, 0)], obj_faces = [[0, 1, 2]],
        obj_x = 0, obj_y = 0, obj_z = 500, obj_scale = 100,
        obj_angle_x = 0, obj_angle_y = 0, obj_angle_z = 0,
        obj_get_face_color = \<lambda>i tv. (255, 0, 0)\<rparr>,
       \<lparr>obj_vertices = [(0, 0, 0), (1, 0, 0), (0, 1, 0)], obj_faces = [[0, 1, 2]],
        obj_x = 0, obj_y = 0, obj_z = 800, obj_scale = 100,
        obj_angle_x = 0, obj_angle_y = 0, obj_angle_z = 0,
        obj_get_face_color = \<lambda>i tv. (255, 0, 0)\<rparr>] 0 0 100 =
     Inr (draw_polygons (sort_reverse (spec_polygons CAMERA_FAR_CLIP
      [\<lparr>obj_vertices = [(0, 0, 0), (1, 0, 0), (0, 1, 0)], obj_faces = [[0, 1, 2]],
        obj_x = 0, obj_y = 0, obj_z = 500, obj_scale = 100,
        obj_angle_x = 0, obj_angle_y = 0, obj_angle_z = 0,
        obj_get_face_color = \<lambda>i tv. (255, 0, 0)\<rparr>,
       \<lparr>obj_vertices = [(0, 0, 0), (1, 0, 0), (0, 1, 0)], obj_faces = [[0, 1, 2]],
        obj_x = 0, obj_y = 0, obj_z = 800, obj_scale = 100,
        obj_angle_x = 0, obj_angle_y = 0, obj_angle_z = 0,
        obj_get_face_color = \<lambda>i tv. (255, 0, 0)\<rparr>] 0 0 100))) \<and>
   map fst (draw_polygons (sort_reverse (spec_polygons CAMERA_FAR_CLIP
      [\<lparr>obj_vertices = [(0, 0, 0), (1, 0, 0), (0, 1, 0)], obj_faces = [[0, 1, 2]],
        obj_x = 0, obj_y = 0, obj_z = 500, obj_scale = 100,
        obj_angle_x = 0, obj_angle_y = 0, obj_angle_z = 0,
        obj_get_face_color = \<lambda>i tv. (255, 0, 0)\<rparr>,
       \<lparr>obj_vertices = [(0, 0, 0), (1, 0, 0), (0, 1, 0)], obj_faces = [[0, 1, 2]],
        obj_x = 0, obj_y = 0, obj_z = 800, obj_scale = 100,
        obj_angle_x = 0, obj_angle_y = 0, obj_angle_z = 0,
        obj_get_face_color = \<lambda>i tv. (255, 0, 0)\<rparr>] 0 0 100))) = [700, 400]"
proof -
  let ?objs = "[\<lparr>obj_vertices = [(0, 0, 0), (1, 0, 0), (0, 1, 0)], obj_faces = [[0, 1, 2]],
        obj_x = 0, obj_y = 0, obj_z = 500, obj_scale = 100,
        obj_angle_x = 0, obj_angle_y = 0, obj_angle_z = 0,
        obj_get_face_color = \<lambda>i tv. (255, 0, 0)\<rparr>,
       \<lparr>obj_vertices = [(0, 0, 0), (1, 0, 0), (0, 1, 0)], obj_faces = [[0, 1, 2]],
        obj_x = 0, obj_y = 0, obj_z = 800, obj_scale = 100,
        obj_angle_x = 0, obj_angle_y = 0, obj_angle_z = 0,
        obj_get_face_color = \<lambda>i tv. (255, 0, 0)\<rparr>]"
  have ok: "list_all mesh_ok ?objs"
    by (simp add: mesh_ok_def)
  have sp: "spec_polygons CAMERA_FAR_CLIP ?objs 0 0 100 =
              [(400, (255, 0, 0), [(600, 400), (675, 400), (600, 475)]),
               (700, (255, 0, 0), [(600, 400), (600 + 300 / 7, 400), (600, 400 + 300 / 7)])]"
    by (simp add: spec_polygons_def spec_face_polygon_def transform_vertices_def
        rotate_point_3d_def vertex_visible_def screen_xy_def face_view_depth_def enumerate_eq_zip
        List.map_filter_simps Let_def CAMERA_NEAR_CLIP_def CAMERA_FAR_CLIP_def
        CAMERA_DEFAULT_Z_def WIDTH_def HEIGHT_def)
  have keys: "map fst (spec_polygons CAMERA_FAR_CLIP ?objs 0 0 100) = [400, 700]"
    unfolding sp by simp
  have drawn: "map fst (draw_polygons (sort_reverse (spec_polygons CAMERA_FAR_CLIP ?objs 0 0 100)))
                 = [700, 400]"
    unfolding sp
    by (simp add: sort_reverse_def draw_polygons_def draw_polygon_def List.map_filter_simps
        Let_def py_int_def)
  note t = mesh_depth_order [OF ok, of 0 0 100]
  note r = t [THEN conjunct2, THEN conjunct1]
  from ok keys r drawn show ?thesis by (intro conjI)
qed

section \<open>Rounding to doubles\<close>

lemma fl_scaled:
  assumes "2 ^ 52 \<le> \<bar>x\<bar> * 2 ^ s" and "\<bar>x\<bar> * 2 ^ s < 2 ^ 53"
  shows "fl x = of_int (round_ties_even (x * 2 ^ s)) / 2 ^ s"
proof -
  have pos: "0 < \<bar>x\<bar>" using assms(1) by (cases "x = 0") simp_all
  have p1: "(2::real) powr of_int (52 - int s) = 2 ^ 52 / 2 ^ s"
    by (simp add: powr_diff powr_realpow)
  have p2: "(2::real) powr (of_int (52 - int s) + 1) = 2 ^ 53 / 2 ^ s"
    by (simp add: powr_diff powr_add powr_realpow)
  have "2 powr of_int (52 - int s) \<le> \<bar>x\<bar> \<and> \<bar>x\<bar> < 2 powr (of_int (52 - int s) + 1)"
    unfolding p1 p2 using assms by (simp add: field_simps)
  with pos have "\<lfloor>log 2 \<bar>x\<bar>\<rfloor> = 52 - int s"
    using floor_log_eq_powr_iff [of "\<bar>x\<bar>" 2 "52 - int s"] by simp
  then have "real_of_int \<lfloor>log 2 \<bar>x\<bar>\<rfloor> - 52 = - real s"
    by simp
  then have q: "(2::real) powr (of_int \<lfloor>log 2 \<bar>x\<bar>\<rfloor> - 52) = 1 / 2 ^ s"
    by (simp only: powr_minus powr_realpow [of 2 s, simplified] inverse_eq_divide)
  from pos show ?thesis
    by (simp add: fl_def Let_def q)
qed

lemma fl_literal_0_001: "fl (1 / 1000) = DOUBLE_0_001"
  unfolding DOUBLE_0_001_def
  by (subst fl_scaled [where s = 62]) (simp_all add: round_ties_even_def)

text \<open>No double is the depth \<open>200 + DOUBLE_0_001\<close>: written with denominator \<open>2 ^ 60\<close> its
  numerator is odd and has 68 bits.\<close>

lemma no_double_at_pole:
  fixes m :: int and j :: nat
  assumes "\<bar>m\<bar> \<le> 2 ^ 53"
  shows "200 - real_of_int m / 2 ^ j + DOUBLE_0_001 \<noteq> 0"
    and "200 - real_of_int m * 2 ^ j + DOUBLE_0_001 \<noteq> 0"
proof -
  show "200 - real_of_int m / 2 ^ j + DOUBLE_0_001 \<noteq> 0"
  proof
    assume "200 - real_of_int m / 2 ^ j + DOUBLE_0_001 = 0"
    then have "real_of_int m * 2 ^ 60 = 230585453842874002047 * 2 ^ j"
      by (simp add: DOUBLE_0_001_def field_simps)
    then have "real_of_int (m * 2 ^ 60) = real_of_int (230585453842874002047 * 2 ^ j)"
      by simp
    then have eq: "m * 2 ^ 60 = 230585453842874002047 * 2 ^ j"
      by (simp only: of_int_eq_iff)
    show False
    proof (cases "j < 60")
      case True
      define k where "k = 59 - j"
      from True have k: "j + Suc k = 60"
        by (simp add: k_def)
      have "(2::int) ^ (j + Suc k) = 2 ^ j * (2 * 2 ^ k)"
        by (simp only: power_add power_Suc)
      then have p: "(2::int) ^ 60 = 2 ^ j * (2 * 2 ^ k)"
        by (simp only: k)
      from eq have "(m * (2 * 2 ^ k)) * 2 ^ j = 230585453842874002047 * 2 ^ j"
        by (simp only: p mult_ac)
      then have "m * (2 * 2 ^ k) = 230585453842874002047"
        by (simp only: mult_cancel_right) simp
      moreover have "even (m * (2 * 2 ^ k))" by simp
      ultimately have "even (230585453842874002047 :: int)"
        by (simp only:)
      then show False by simp
    next
      case False
      define k where "k = j - 60"
      from False have k: "60 + k = j"
        by (simp add: k_def)
      have "(2::int) ^ (60 + k) = 2 ^ 60 * 2 ^ k"
        by (simp only: power_add)
      then have p: "(2::int) ^ j = 2 ^ 60 * 2 ^ k"
        by (simp only: k)
      from eq have "m * 2 ^ 60 = (230585453842874002047 * 2 ^ k) * 2 ^ 60"
        by (simp only: p mult_ac)
      then have m: "m = 230585453842874002047 * 2 ^ k"
        by (simp only: mult_cancel_right) simp
      have "(1::int) \<le> 2 ^ k" by simp
      then have "(230585453842874002047::int) * 1 \<le> 230585453842874002047 * 2 ^ k"
        by (intro mult_left_mono) simp_all
      with m assms show False by simp
    qed
  qed
  show "200 - real_of_int m * 2 ^ j + DOUBLE_0_001 \<noteq> 0"
  proof
    assume "200 - real_of_int m * 2 ^ j + DOUBLE_0_001 = 0"
    then have "real_of_int m * 2 ^ j * 2 ^ 60 = 230585453842874002047"
      by (simp add: DOUBLE_0_001_def field_simps)
    then have "real_of_int (m * 2 ^ j * 2 ^ 60) = real_of_int 230585453842874002047"
      by simp
    then have "m * 2 ^ j * 2 ^ 60 = 230585453842874002047"
      by (simp only: of_int_eq_iff)
    moreover have "even (m * 2 ^ j * 2 ^ 60)" by simp
    ultimately have "even (230585453842874002047 :: int)"
      by (simp only:)
    then show False by simp
  qed
qed

lemma no_double_at_pole_powr:
  fixes m k :: int
  assumes "\<bar>m\<bar> \<le> 2 ^ 53"
  shows "200 - real_of_int m * 2 powr real_of_int k + DOUBLE_0_001 \<noteq> 0"
proof (cases "0 \<le> k")
  case True
  then have "real_of_int k = real (nat k)" by simp
  then have "2 powr real_of_int k = 2 ^ nat k"
    by (simp only: powr_realpow [of 2 "nat k", simplified])
  with no_double_at_pole(2) [OF assms, of "nat k"] show ?thesis by simp
next
  case False
  then have "real_of_int k = - real (nat (- k))" by simp
  then have "2 powr real_of_int k = 1 / 2 ^ nat (- k)"
    by (simp only: powr_minus powr_realpow [of 2 "nat (- k)", simplified] inverse_eq_divide)
  with no_double_at_pole(1) [OF assms, of "nat (- k)"] show ?thesis by simp
qed

text \<open>The significand of \<open>fl x\<close> has at most 53 bits (\<open>2 ^ 53\<close> itself when the rounding
  carries), so \<open>fl x\<close> is a double, and never the depth \<open>200 + DOUBLE_0_001\<close>.\<close>

lemma round_ties_even_bound:
  assumes "\<bar>y\<bar> < 2 ^ 53"
  shows "\<bar>round_ties_even y\<bar> \<le> 2 ^ 53"
proof -
  from assms have "y < of_int (2 ^ 53)" by simp
  then have u: "\<lfloor>y\<rfloor> < 2 ^ 53" by (simp only: floor_less_iff)
  from assms have "of_int (- (2 ^ 53)) \<le> y" by simp
  then have l: "- (2 ^ 53) \<le> \<lfloor>y\<rfloor>" by (simp only: le_floor_iff)
  from u l have "\<bar>\<lfloor>y\<rfloor>\<bar> \<le> 2 ^ 53" and "\<bar>\<lfloor>y\<rfloor> + 1\<bar> \<le> 2 ^ 53"
    by linarith+
  then show ?thesis
    by (simp add: round_ties_even_def Let_def)
qed

lemma fl_significand:
  assumes "x \<noteq> 0"
  shows "\<bar>round_ties_even (x / 2 powr (of_int \<lfloor>log 2 \<bar>x\<bar>\<rfloor> - 52))\<bar> \<le> 2 ^ 53"
proof -
  let ?E = "\<lfloor>log 2 \<bar>x\<bar>\<rfloor>"
  from assms have pos: "0 < \<bar>x\<bar>" by simp
  have "log 2 \<bar>x\<bar> < of_int ?E + 1" by linarith
  then have "2 powr log 2 \<bar>x\<bar> < 2 powr (of_int ?E + 1)"
    by simp
  with pos have lt: "\<bar>x\<bar> < 2 powr (of_int ?E + 1)" by simp
  have q: "0 < (2::real) powr (of_int ?E - 52)" by simp
  have "real_of_int ?E + 1 = (of_int ?E - 52) + 53"
    by linarith
  then have "(2::real) powr (of_int ?E + 1) = 2 powr ((of_int ?E - 52) + 53)"
    by (rule arg_cong)
  also have "\<dots> = 2 powr (of_int ?E - 52) * 2 powr 53"
    by (rule powr_add)
  also have "(2::real) powr 53 = 2 ^ 53"
    by simp
  finally have "(2::real) powr (of_int ?E + 1) = 2 powr (of_int ?E - 52) * 2 ^ 53" .
  with lt have "\<bar>x\<bar> < 2 powr (of_int ?E - 52) * 2 ^ 53" by (simp only:)
  with q have "\<bar>x\<bar> / 2 powr (of_int ?E - 52) < 2 ^ 53"
    by (simp add: field_simps)
  then have "\<bar>x / 2 powr (of_int ?E - 52)\<bar> < 2 ^ 53" by simp
  then show ?thesis by (rule round_ties_even_bound)
qed

lemma fl_not_at_pole: "200 - fl z + DOUBLE_0_001 \<noteq> 0"
proof (cases "z = 0")
  case True
  then show ?thesis by (simp add: fl_def DOUBLE_0_001_def)
next
  case False
  let ?k = "\<lfloor>log 2 \<bar>z\<bar>\<rfloor> - 52"
  let ?m = "round_ties_even (z / 2 powr (of_int \<lfloor>log 2 \<bar>z\<bar>\<rfloor> - 52))"
  from False have "fl z = of_int ?m * 2 powr of_int ?k"
    by (simp add: fl_def Let_def)
  with no_double_at_pole_powr [OF fl_significand [OF False], of ?k] show ?thesis
    by simp
qed

section \<open>The divisor of the perspective divide\<close>

text \<open>
  C4 (as amended). In square6.py and square5.py \<^verbatim>\<open>project_point\<close> never raises: it
  divides only by a depth that has passed the clip test, so where it returns a
  projection the divisor \<open>point.z - camera.z\<close> lies in
  \<open>[CAMERA_NEAR_CLIP, CAMERA_FAR_CLIP]\<close> and is at least 1; a depth outside is rejected
  with \<open>None\<close>, not clamped, and no epsilon is added. This holds for the projection at the
  head of \<^verbatim>\<open>Star.draw\<close>, for every star and camera position.

  \<^verbatim>\<open>Star.project\<close> of square.py and \<^verbatim>\<open>project_point\<close> of square4.py (called with
  \<^verbatim>\<open>camera_z = 200\<close> only) have no clip test: they divide by \<open>200 - z + 0.001\<close> at every
  depth. The divisor would vanish at the depth \<open>200 + DOUBLE_0_001\<close>, which no double is:
  at every depth a float holds the divisor is not zero and the division returns. No clip
  range keeps the divisor away from zero.
\<close>

theorem perspective_divide_defined:
  "project_point (p0, p1, p2) cx cy cz sx sy pd \<noteq> Inl e \<and>
   project_point_sq5 (p0, p1, p2) cx cy cz sx sy pd \<noteq> Inl e \<and>
   Star_draw_projected_data s (c0, c1, c2) \<noteq> Inl e \<and>
   (project_point (p0, p1, p2) cx cy cz sx sy pd = Inr (Some (a, b, sf, d)) \<longrightarrow>
      d = p2 - cz \<and> 1 \<le> d \<and> CAMERA_NEAR_CLIP \<le> d \<and> d \<le> CAMERA_FAR_CLIP \<and>
      py_truediv pd d = Inr (pd / d) \<and>
      a = (p0 - cx) * (pd / d) + sx \<and> b = (p1 - cy) * (pd / d) + sy) \<and>
   (project_point_sq5 (p0, p1, p2) cx cy cz sx sy pd = Inr (Some (a', b', sf')) \<longrightarrow>
      1 \<le> p2 - cz \<and> CAMERA_NEAR_CLIP \<le> p2 - cz \<and> p2 - cz \<le> CAMERA_FAR_CLIP_sq5 \<and>
      py_truediv pd (p2 - cz) = Inr (pd / (p2 - cz)) \<and>
      a' = (p0 - cx) * (pd / (p2 - cz)) + sx \<and> b' = (p1 - cy) * (pd / (p2 - cz)) + sy) \<and>
   (Star_draw_projected_data s (c0, c1, c2) = Inr (Some (a'', b'', sf'', d'')) \<longrightarrow>
      d'' = star_z s - c2 \<and> 1 \<le> d'' \<and> CAMERA_NEAR_CLIP \<le> d'' \<and> d'' \<le> CAMERA_FAR_CLIP \<and>
      a'' = (star_x s - c0) * (STAR_PROJECTION_DISTANCE / d'') + real_of_int (WIDTH div 2)) \<and>
   200 - fl (sq1_z t) + DOUBLE_0_001 \<noteq> 0 \<and>
   Star_project_sq1 t =
     Inr (sq1_x t * (200 / (200 - fl (sq1_z t) + DOUBLE_0_001)) + 400,
          sq1_y t * (200 / (200 - fl (sq1_z t) + DOUBLE_0_001)) + 300,
          sq1_size t * (200 / (200 - fl (sq1_z t) + DOUBLE_0_001)),
          sq1_size t * (200 / (200 - fl (sq1_z t) + DOUBLE_0_001))) \<and>
   200 - fl z4 + DOUBLE_0_001 \<noteq> 0 \<and>
   project_point_sq4 (x4, y4, z4) px py 200 =
     Inr (x4 * (200 / (200 - fl z4 + DOUBLE_0_001)) + px,
          y4 * (200 / (200 - fl z4 + DOUBLE_0_001)) + py)"
proof -
  have clip:
    "project_point (p0, p1, p2) cx cy cz sx sy pd \<noteq> Inl e \<and>
   project_point_sq5 (p0, p1, p2) cx cy cz sx sy pd \<noteq> Inl e \<and>
   Star_draw_projected_data s (c0, c1, c2) \<noteq> Inl e \<and>
   (project_point (p0, p1, p2) cx cy cz sx sy pd = Inr (Some (a, b, sf, d)) \<longrightarrow>
      d = p2 - cz \<and> 1 \<le> d \<and> CAMERA_NEAR_CLIP \<le> d \<and> d \<le> CAMERA_FAR_CLIP \<and>
      py_truediv pd d = Inr (pd / d) \<and>
      a = (p0 - cx) * (pd / d) + sx \<and> b = (p1 - cy) * (pd / d) + sy) \<and>
   (project_point_sq5 (p0, p1, p2) cx cy cz sx sy pd = Inr (Some (a', b', sf')) \<longrightarrow>
      1 \<le> p2 - cz \<and> CAMERA_NEAR_CLIP \<le> p2 - cz \<and> p2 - cz \<le> CAMERA_FAR_CLIP_sq5 \<and>
      py_truediv pd (p2 - cz) = Inr (pd / (p2 - cz)) \<and>
      a' = (p0 - cx) * (pd / (p2 - cz)) + sx \<and> b' = (p1 - cy) * (pd / (p2 - cz)) + sy) \<and>
   (Star_draw_projected_data s (c0, c1, c2) = Inr (Some (a'', b'', sf'', d'')) \<longrightarrow>
      d'' = star_z s - c2 \<and> 1 \<le> d'' \<and> CAMERA_NEAR_CLIP \<le> d'' \<and> d'' \<le> CAMERA_FAR_CLIP \<and>
      a'' = (star_x s - c0) * (STAR_PROJECTION_DISTANCE / d'') + real_of_int (WIDTH div 2))"
    by (auto simp add: Star_draw_projected_data_def project_point_eq project_point_sq5_eq
        py_truediv_def CAMERA_NEAR_CLIP_def split: if_splits)
  have nz1: "200 - fl (sq1_z t) + DOUBLE_0_001 \<noteq> 0"
    and nz4: "200 - fl z4 + DOUBLE_0_001 \<noteq> 0"
    by (rule fl_not_at_pole)+
  have s1: "Star_project_sq1 t =
     Inr (sq1_x t * (200 / (200 - fl (sq1_z t) + DOUBLE_0_001)) + 400,
          sq1_y t * (200 / (200 - fl (sq1_z t) + DOUBLE_0_001)) + 300,
          sq1_size t * (200 / (200 - fl (sq1_z t) + DOUBLE_0_001)),
          sq1_size t * (200 / (200 - fl (sq1_z t) + DOUBLE_0_001)))"
    using nz1 by (simp add: Star_project_sq1_def py_truediv_def Let_def)
  have s4: "project_point_sq4 (x4, y4, z4) px py 200 =
     Inr (x4 * (200 / (200 - fl z4 + DOUBLE_0_001)) + px,
          y4 * (200 / (200 - fl z4 + DOUBLE_0_001)) + py)"
    using nz4 by (simp add: project_point_sq4_def py_truediv_def)
  note c = clip [THEN conjunct1] clip [THEN conjunct2, THEN conjunct1]
    clip [THEN conjunct2, THEN conjunct2, THEN conjunct1]
    clip [THEN conjunct2, THEN conjunct2, THEN conjunct2, THEN conjunct1]
    clip [THEN conjunct2, THEN conjunct2, THEN conjunct2, THEN conjunct2, THEN conjunct1]
    clip [THEN conjunct2, THEN conjunct2, THEN conjunct2, THEN conjunct2, THEN conjunct2]
  from c nz1 s1 nz4 s4 show ?thesis by (intro conjI)
qed

theorem perspective_divide_defined_witness:
  "Star_draw_projected_data
     \<lparr>star_initial_size = 1, star_base_color = (255, 255, 255), star_x = 10, star_y = 0, star_z = 500, star_size = 1,
      star_trail_length = 0, star_trail_alpha = 255\<rparr> (0, 0, 100)
     = Inr (Some (610, 400, max (1 / 10) (1 - 399 / 5999), 400)) \<and>
   (400 :: real) = 500 - 100 \<and> (1 :: real) \<le> 400 \<and> 400 \<le> CAMERA_FAR_CLIP \<and>
   project_point_sq4 (0, 0, 200001 / 1000) 400 300 200 = Inr (400, 300)"
proof -
  let ?s = "\<lparr>star_initial_size = 1, star_base_color = (255, 255, 255), star_x = 10, star_y = 0, star_z = 500, star_size = 1,
      star_trail_length = 0, star_trail_alpha = 255\<rparr>"
  have v: "Star_draw_projected_data ?s (0, 0, 100)
             = Inr (Some (610, 400, max (1 / 10) (1 - 399 / 5999), 400))"
    by (simp add: Star_draw_projected_data_def project_point_eq CAMERA_NEAR_CLIP_def
        CAMERA_FAR_CLIP_def STAR_PROJECTION_DISTANCE_def WIDTH_def HEIGHT_def)
  note t = perspective_divide_defined
      [where s = ?s and ?c0.0 = 0 and ?c1.0 = 0 and ?c2.0 = 100 and a'' = 610 and b'' = 400
         and sf'' = "max (1 / 10) (1 - 399 / 5999)" and d'' = 400
         and ?p0.0 = 0 and ?p1.0 = 0 and ?p2.0 = 0 and cx = 0 and cy = 0 and cz = 0
         and sx = 0 and sy = 0 and pd = 0 and a = 0 and b = 0 and sf = 0 and d = 0
         and a' = 0 and b' = 0 and sf' = 0 and e = ZeroDivisionError
         and ?x4.0 = 0 and ?y4.0 = 0 and ?z4.0 = "200001 / 1000" and px = 400 and py = 300
         and t = "\<lparr>sq1_x = 0, sq1_y = 0, sq1_z = 0, sq1_size = 0\<rparr>"]
  note u = t [THEN conjunct2, THEN conjunct2, THEN conjunct2, THEN conjunct2, THEN conjunct2,
              THEN conjunct1, THEN mp, OF v]
  note w = t [THEN conjunct2, THEN conjunct2, THEN conjunct2, THEN conjunct2, THEN conjunct2,
              THEN conjunct2, THEN conjunct2, THEN conjunct2, THEN conjunct2]
  from u have ar: "(400 :: real) = 500 - 100 \<and> (1 :: real) \<le> 400 \<and> 400 \<le> CAMERA_FAR_CLIP"
    by simp
  from w have p: "project_point_sq4 (0, 0, 200001 / 1000) 400 300 200 = Inr (400, 300)"
    by (simp only: mult_zero_left add_0)
  note a1 = ar [THEN conjunct1] and a2 = ar [THEN conjunct2, THEN conjunct1]
    and a3 = ar [THEN conjunct2, THEN conjunct2]
  from v a1 a2 a3 p show ?thesis by (intro conjI)
qed

text \<open>
  square.py has no clip test, and its stars pass the depth 200. With every draw of the
  generator at \<open>1796207980604 / 2 ^ 43\<close> a star is constructed at depth 205.00099999999338
  and is at 200.00099999999338 after one \<^verbatim>\<open>update\<close>; every step of this is exact in
  doubles. There the divisor \<open>200 - z + 0.001\<close> of \<^verbatim>\<open>Star.project\<close> is
  \<open>7629439 / 2 ^ 60\<close>, about \<open>6.6e-12\<close>, and the factor about \<open>3.0e13\<close>. At the depth
  \<^verbatim>\<open>200.001\<close>, the double \<open>7036909602138489 / 2 ^ 45\<close>, the divisor is \<open>- 5505 / 2 ^ 60\<close>,
  about \<open>- 4.8e-15\<close>, and the factor about \<open>- 4.2e16\<close>.
\<close>

theorem star_sq1_divisor_near_zero:
  "rng_ok \<lparr>draws = \<lambda>n. 1796207980604 / 2 ^ 43, pos = 0\<rparr> \<and>
   sq1_z (fst (Star_init_sq1 \<lparr>draws = \<lambda>n. 1796207980604 / 2 ^ 43, pos = 0\<rparr>)) = 450801966411401 / 2 ^ 41 \<and>
   sq1_z (fst (Star_update_sq1 (fst (Star_init_sq1 \<lparr>draws = \<lambda>n. 1796207980604 / 2 ^ 43, pos = 0\<rparr>))
                           (snd (Star_init_sq1 \<lparr>draws = \<lambda>n. 1796207980604 / 2 ^ 43, pos = 0\<rparr>)))) = 439806850133641 / 2 ^ 41 \<and>
   fl (439806850133641 / 2 ^ 41) = 439806850133641 / 2 ^ 41 \<and>
   200 - fl (sq1_z (fst (Star_update_sq1 (fst (Star_init_sq1 \<lparr>draws = \<lambda>n. 1796207980604 / 2 ^ 43, pos = 0\<rparr>))
                           (snd (Star_init_sq1 \<lparr>draws = \<lambda>n. 1796207980604 / 2 ^ 43, pos = 0\<rparr>))))) + DOUBLE_0_001 = 7629439 / 2 ^ 60 \<and>
   (7629439 / 2 ^ 60 :: real) < 1 / 10 ^ 11 \<and>
   Star_project_sq1 (fst (Star_update_sq1 (fst (Star_init_sq1 \<lparr>draws = \<lambda>n. 1796207980604 / 2 ^ 43, pos = 0\<rparr>))
                           (snd (Star_init_sq1 \<lparr>draws = \<lambda>n. 1796207980604 / 2 ^ 43, pos = 0\<rparr>))))
     = Inr (- 136411271947875348224400 / 7629439, - 136411271947876111168300 / 7629439,
            324757329894860390400 / 7629439, 324757329894860390400 / 7629439) \<and>
   fl (200001 / 1000) = 7036909602138489 / 2 ^ 45 \<and>
   200 - fl (200001 / 1000) + DOUBLE_0_001 = - 5505 / 2 ^ 60 \<and>
   Star_project_sq1 \<lparr>sq1_x = 0, sq1_y = 0, sq1_z = 200001 / 1000, sq1_size = 1\<rparr>
     = Inr (400, 300, - 46116860184273879040 / 1101, - 46116860184273879040 / 1101)"
proof -
  let ?g = "\<lparr>draws = \<lambda>n. 1796207980604 / 2 ^ 43, pos = 0\<rparr>"
  let ?s = "(fst (Star_update_sq1 (fst (Star_init_sq1 \<lparr>draws = \<lambda>n. 1796207980604 / 2 ^ 43, pos = 0\<rparr>))
                           (snd (Star_init_sq1 \<lparr>draws = \<lambda>n. 1796207980604 / 2 ^ 43, pos = 0\<rparr>))))"
  have g: "rng_ok ?g"
    by (simp add: rng_ok_def)
  have z0: "sq1_z (fst (Star_init_sq1 ?g)) = 450801966411401 / 2 ^ 41"
    by (simp add: Star_init_sq1_def uniform_def random_def)
  have z: "sq1_z ?s = 439806850133641 / 2 ^ 41"
    and x: "sq1_x ?s = - 81307454078125 / 2 ^ 37"
    and y: "sq1_y ?s = - 81307454078125 / 2 ^ 37"
    and sz: "sq1_size ?s = 1548563622927 / 2 ^ 40"
    by (simp_all add: Star_init_sq1_def Star_update_sq1_def uniform_def random_def Let_def)
  have f: "fl (439806850133641 / 2 ^ 41) = 439806850133641 / 2 ^ 41"
    by (subst fl_scaled [where s = 45]) (simp_all add: round_ties_even_def)
  have d: "200 - fl (sq1_z ?s) + DOUBLE_0_001 = 7629439 / 2 ^ 60"
    unfolding z f by (simp add: DOUBLE_0_001_def)
  have lt: "(7629439 / 2 ^ 60 :: real) < 1 / 10 ^ 11"
    by simp
  have p: "Star_project_sq1 ?s
     = Inr (- 136411271947875348224400 / 7629439, - 136411271947876111168300 / 7629439,
            324757329894860390400 / 7629439, 324757329894860390400 / 7629439)"
    unfolding Star_project_sq1_def d x y sz
    by (simp add: py_truediv_def Let_def)
  have f2: "fl (200001 / 1000) = 7036909602138489 / 2 ^ 45"
    by (subst fl_scaled [where s = 45]) (simp_all add: round_ties_even_def)
  have d2: "200 - fl (200001 / 1000) + DOUBLE_0_001 = - 5505 / 2 ^ 60"
    unfolding f2 by (simp add: DOUBLE_0_001_def)
  have z2: "sq1_z \<lparr>sq1_x = 0, sq1_y = 0, sq1_z = 200001 / 1000, sq1_size = 1\<rparr> = 200001 / 1000"
    by simp
  have p2: "Star_project_sq1 \<lparr>sq1_x = 0, sq1_y = 0, sq1_z = 200001 / 1000, sq1_size = 1\<rparr>
     = Inr (400, 300, - 46116860184273879040 / 1101, - 46116860184273879040 / 1101)"
    unfolding Star_project_sq1_def z2 d2
    by (simp add: py_truediv_def Let_def)
  from g z0 z f d lt p f2 d2 p2 show ?thesis by (intro conjI)
qed

section \<open>The emission accumulator\<close>












end
